theory Spec2Isabelle
  imports Complex_Main "HOL-Library.Log_Nat"
begin

section \<open>The LaTeX controller of Xournal++ (src/control/LatexController.cpp)\<close>

text \<open>
  The controller drives the "insert LaTeX formula" dialog: every change of the text
  buffer may start \<^verbatim>\<open>pdflatex\<close> as a child process, a child watch
  delivers the exit status to \<^verbatim>\<open>onPdfRenderComplete\<close>, and after
  the dialog has closed \<^verbatim>\<open>run\<close> inserts the rendered formula into
  the document. The handlers run on the GTK main loop, one at a time; each is modelled
  as a function from the state before the handler to the state after it. What the
  environment decides (whether a file can be written, whether a child can be started,
  what lies on disk) is an argument of the function.
\<close>

subsection \<open>C++ doubles\<close>

text \<open>
  A \<^verbatim>\<open>double\<close> is an IEEE 754 binary64 value: a finite value with its
  sign bit (there are two zeros), an infinity with its sign, or NaN. A finite value is
  given by its sign (\<open>True\<close> for minus) and its magnitude, which is not
  negative; the magnitudes a double can hold are the ones \<open>round_double\<close>
  returns. The type holds the other reals too: what is proved for every value of the type
  holds for every double.

  Division and multiplication compute the exact quotient and product and round them the
  way the hardware does in its default mode: to the nearest double, a tie to the one with
  the even mantissa; below \<open>2^-1022\<close> the doubles are \<open>2^-1074\<close> apart and
  a result may underflow to zero; a result that rounds to \<open>2^1024\<close> or more is an
  infinity. \<open>floor_log2 q\<close> is the exponent \<open>e\<close> with
  \<open>2^e \<le> q < 2^(e+1)\<close> (lemma \<open>floor_log2_bounds\<close>), from the bit
  length of \<open>\<lfloor>q\<rfloor>\<close>, or of \<open>\<lceil>1 / q\<rceil> - 1\<close> when
  \<open>q < 1\<close>.
\<close>

datatype dbl = Finite bool real | Infinite bool | NaN

definition pow2 :: "int \<Rightarrow> real" where
  "pow2 e = (if 0 \<le> e then 2 ^ nat e else 1 / 2 ^ nat (- e))"

definition floor_log2 :: "real \<Rightarrow> int" where
  "floor_log2 q =
     (if 1 \<le> q then bitlen \<lfloor>q\<rfloor> - 1 else - bitlen (\<lceil>1 / q\<rceil> - 1))"

definition round_half_even :: "real \<Rightarrow> int" where
  "round_half_even n =
     (let f = \<lfloor>n\<rfloor>; r = n - of_int f
      in if r < 1 / 2 then f else if 1 / 2 < r then f + 1 else if even f then f else f + 1)"

text \<open>The double nearest to a magnitude \<open>q \<ge> 0\<close>; \<open>None\<close> when it
  overflows.\<close>

definition round_double :: "real \<Rightarrow> real option" where
  "round_double q =
     (if q = 0 then Some 0
      else let e = max (floor_log2 q) (- 1022);
               ulp = pow2 (e - 52);
               v = of_int (round_half_even (q / ulp)) * ulp
           in if pow2 1024 \<le> v then None else Some v)"

definition rounded :: "bool \<Rightarrow> real \<Rightarrow> dbl" where
  "rounded sign q = (case round_double q of None \<Rightarrow> Infinite sign | Some v \<Rightarrow> Finite sign v)"

text \<open>\<^verbatim>\<open>a / b\<close> and \<^verbatim>\<open>a * b\<close>; the sign of the result is
  the exclusive or of the signs, also for a zero and an infinity.\<close>

fun ddiv :: "dbl \<Rightarrow> dbl \<Rightarrow> dbl" where
  "ddiv (Finite s a) (Finite t b) =
     (if b = 0 then (if a = 0 then NaN else Infinite (s \<noteq> t))
      else rounded (s \<noteq> t) (a / b))"
| "ddiv (Finite s a) (Infinite t) = Finite (s \<noteq> t) 0"
| "ddiv (Infinite s) (Finite t b) = Infinite (s \<noteq> t)"
| "ddiv _ _ = NaN"

fun dmul :: "dbl \<Rightarrow> dbl \<Rightarrow> dbl" where
  "dmul (Finite s a) (Finite t b) = rounded (s \<noteq> t) (a * b)"
| "dmul (Finite s a) (Infinite t) = (if a = 0 then NaN else Infinite (s \<noteq> t))"
| "dmul (Infinite s) (Finite t b) = (if b = 0 then NaN else Infinite (s \<noteq> t))"
| "dmul (Infinite s) (Infinite t) = Infinite (s \<noteq> t)"
| "dmul _ _ = NaN"

text \<open>The comparison \<^verbatim>\<open>d == 0\<close>, true for both zeros, and a double read as
  a condition (\<^verbatim>\<open>if (d)\<close>, true for every value but the zeros, NaN
  included).\<close>

fun is_zero :: "dbl \<Rightarrow> bool" where
  "is_zero (Finite s a) = (a = 0)"
| "is_zero d = False"

definition truthy :: "dbl \<Rightarrow> bool" where
  "truthy d = (\<not> is_zero d)"

subsection \<open>Elements, files and processes\<close>

text \<open>A \<^verbatim>\<open>TexImage\<close> element: position, size, the formula's source
  and the bytes of the PDF. A selected \<^verbatim>\<open>Text\<close> element: what the
  controller reads of it.\<close>

record TexImage =
  img_x :: dbl
  img_y :: dbl
  img_text :: string
  img_width :: dbl
  img_height :: dbl
  img_binaryData :: string

record TextElement =
  txt_text :: string
  txt_width :: dbl
  txt_height :: dbl

text \<open>\<^verbatim>\<open>new TexImage()\<close>. Modelled from the spec: the constructor
  (TexImage.cpp) is not among the sources; an embedded asset starts with no source text and
  no bytes, and every field the controller reads later is set by the controller first.\<close>

definition new_TexImage :: TexImage where
  "new_TexImage = \<lparr>img_x = Finite False 0, img_y = Finite False 0, img_text = [],
     img_width = Finite False 0, img_height = Finite False 0, img_binaryData = []\<rparr>"

text \<open>
  What lies at \<^verbatim>\<open>texTmp/tex.pdf\<close>, as the two library calls of
  \<^verbatim>\<open>loadRendered\<close> see it: \<^verbatim>\<open>g_file_get_contents\<close>
  fails (\<open>Unreadable\<close>) or gives the bytes, and
  \<^verbatim>\<open>poppler_document_new_from_data\<close> on these bytes sets an error,
  returns NULL without one, or returns a document, given by the sizes of its pages
  (\<^verbatim>\<open>poppler_document_get_n_pages\<close> is their number).
\<close>

datatype poppler_result = PopplerError | PopplerNull | PopplerDocument "(dbl \<times> dbl) list"

datatype scratch_pdf = Unreadable | Readable string poppler_result

text \<open>The wait status of a child, and \<^verbatim>\<open>g_spawn_check_exit_status\<close>
  on it: no error for exit code 0, \<^verbatim>\<open>G_SPAWN_EXIT_ERROR\<close> with the
  exit code for another exit code, \<^verbatim>\<open>G_SPAWN_ERROR_FAILED\<close> for a
  child that a signal ended.\<close>

datatype wait_status = Exited nat | Signaled nat

datatype gerror = G_SPAWN_EXIT_ERROR nat | G_SPAWN_ERROR_FAILED

fun g_spawn_check_exit_status :: "wait_status \<Rightarrow> gerror option" where
  "g_spawn_check_exit_status (Exited n) = (if n = 0 then None else Some (G_SPAWN_EXIT_ERROR n))"
| "g_spawn_check_exit_status (Signaled n) = Some G_SPAWN_ERROR_FAILED"

text \<open>\<^verbatim>\<open>g_error_matches(err, G_SPAWN_EXIT_ERROR, code)\<close>.\<close>

fun g_error_matches_exit :: "gerror \<Rightarrow> nat \<Rightarrow> bool" where
  "g_error_matches_exit (G_SPAWN_EXIT_ERROR n) code = (n = code)"
| "g_error_matches_exit G_SPAWN_ERROR_FAILED code = False"

text \<open>The messages of \<^verbatim>\<open>XojMsgBox::showErrorToUser\<close>, one
  constructor for each call in the file.\<close>

datatype user_message =
    CouldNotFindPdflatex
  | CouldNotSaveTexFile
  | CouldNotStartPdflatex
  | PdflatexEncounteredError gerror
  | CouldNotLoadPdfFileError
  | CouldNotLoadPdfPopplerError
  | CouldNotLoadPdf

text \<open>
  The calls the controller makes on the document, the view and the undo handler, in the
  order it makes them. Views, pages and layers are named by numbers; a
  \<^verbatim>\<open>TexImage*\<close> is \<open>None\<close> when it is NULL.
\<close>

datatype selected_element = SelectedTex TexImage | SelectedText TextElement

datatype doc_call =
    DocLock
  | DocUnlock
  | ClearSelectionEndText
  | DeleteSelection selected_element
  | AddElement nat "TexImage option"
  | RerenderElement nat "TexImage option"
  | AddUndoAction "nat option" nat "TexImage option"
  | SetSelection "TexImage option"

datatype error = AssertionFailed | NullPointerDereference

subsection \<open>The state\<close>

text \<open>
  The members of the controller (from \<open>binTex\<close> to \<open>temporaryRender\<close>),
  the widgets of the dialog it drives (the text, the sensitivity of
  \<^verbatim>\<open>texokbutton\<close>, the text of \<^verbatim>\<open>texErrorLabel\<close>,
  the render on display with the length passed along), and what it acts on: the two
  scratch files, the children started (with the contents of \<^verbatim>\<open>tex.tex\<close>
  each was started on), the child watches not yet called (with the
  \<^verbatim>\<open>isPreview\<close> of their callback data), the messages shown and the
  calls made on the document.
  The numeric members are declared in LatexController.h, which is not among the sources;
  they are doubles here, which hold every \<^verbatim>\<open>int\<close> value too.
\<close>

record state =
  binTex :: string
  initalTex :: string
  currentTex :: string
  lastPreviewedTex :: string
  isUpdating :: bool
  isValidTex :: bool
  posx :: dbl
  posy :: dbl
  imgwidth :: dbl
  imgheight :: dbl
  view :: "nat option"
  page :: "nat option"
  layer :: "nat option"
  selectedTexImage :: "TexImage option"
  selectedText :: "TextElement option"
  temporaryRender :: "TexImage option"
  dlgTex :: string
  okSensitive :: bool
  errorLabel :: string
  dlgTempRender :: "(string \<times> nat) option"
  texFile :: "string option"
  pdfFile :: "scratch_pdf option"
  children :: "(nat \<times> string) list"
  watches :: "(nat \<times> bool) list"
  messages :: "user_message list"
  calls :: "doc_call list"

subsection \<open>The functions of LatexController.cpp\<close>

definition showErrorToUser :: "user_message \<Rightarrow> state \<Rightarrow> state" where
  "showErrorToUser m s = s\<lparr>messages := messages s @ [m]\<rparr>"

text \<open>\<^verbatim>\<open>setUpdating\<close>: the first call on the button is inside the
  condition, the second one is not.\<close>

definition setUpdating :: "bool \<Rightarrow> state \<Rightarrow> state" where
  "setUpdating newValue s =
     (let s1 = (if (\<not> isUpdating s \<and> newValue) \<or> (isUpdating s \<and> \<not> newValue)
                then s\<lparr>okSensitive := \<not> newValue\<rparr> else s);
          s2 = s1\<lparr>okSensitive := isValidTex s1\<rparr>;
          s3 = s2\<lparr>errorLabel := (if isValidTex s2 then []
                 else ''The formula is empty when rendered or invalid.'')\<rparr>
      in s3\<lparr>isUpdating := newValue\<rparr>)"

text \<open>\<^verbatim>\<open>convertDocumentToImage\<close>, on the pages of the parsed
  document; NULL (\<open>None\<close>) for a document without a page.\<close>

definition convertDocumentToImage :: "(dbl \<times> dbl) list \<Rightarrow> state \<Rightarrow> TexImage option" where
  "convertDocumentToImage pages s =
     (case pages of
        [] \<Rightarrow> None
      | (pageWidth, pageHeight) # _ \<Rightarrow>
          (let img = new_TexImage\<lparr>img_x := posx s, img_y := posy s, img_text := currentTex s\<rparr>
           in if truthy (imgheight s)
              then (let ratio = ddiv pageWidth pageHeight;
                        img1 = (if is_zero ratio
                                then (if is_zero (imgwidth s)
                                      then img\<lparr>img_width := Finite False 10\<rparr>
                                      else img\<lparr>img_width := imgwidth s\<rparr>)
                                else img\<lparr>img_width := dmul (imgheight s) ratio\<rparr>)
                    in Some (img1\<lparr>img_height := imgheight s\<rparr>))
              else Some (img\<lparr>img_width := pageWidth, img_height := pageHeight\<rparr>)))"

text \<open>The two halves of the LaTeX template; \<open>CHR 0x5C\<close> is the backslash
  and \<open>CHR 0x0A\<close> the end of a line.\<close>

definition LATEX_TEMPLATE_1 :: string where
  "LATEX_TEMPLATE_1 =
     CHR 0x5C # ''documentclass[crop, border=5pt]{standalone}'' @ CHR 0x0A #
     CHR 0x5C # ''usepackage{amsmath}'' @ CHR 0x0A #
     CHR 0x5C # ''usepackage{ifthen}'' @ CHR 0x0A #
     CHR 0x5C # ''begin{document}'' @ CHR 0x0A #
     CHR 0x5C # ''def'' @ CHR 0x5C # ''preview{'' @ CHR 0x5C # ''('' @
       CHR 0x5C # ''displaystyle'' @ [CHR 0x0A]"

definition LATEX_TEMPLATE_2 :: string where
  "LATEX_TEMPLATE_2 =
     CHR 0x0A # CHR 0x5C # '')}'' @ CHR 0x0A #
     CHR 0x5C # ''newlength{'' @ CHR 0x5C # ''pheight}'' @ CHR 0x0A #
     CHR 0x5C # ''settoheight{'' @ CHR 0x5C # ''pheight}{'' @ CHR 0x5C # ''hbox{'' @
       CHR 0x5C # ''preview}}'' @ CHR 0x0A #
     CHR 0x5C # ''ifthenelse{'' @ CHR 0x5C # ''pheight=0.0pt}'' @ CHR 0x0A #
     ''{'' @ CHR 0x5C # ''GenericError{}{xournalpp: blank formula}{}{}}'' @ CHR 0x0A #
     ''{'' @ CHR 0x5C # ''preview}'' @ CHR 0x0A #
     CHR 0x5C # ''end{document}'' @ [CHR 0x0A]"

text \<open>What the environment decides when a render is started: whether
  \<^verbatim>\<open>g_file_set_contents\<close> succeeds, and the process id
  \<^verbatim>\<open>g_spawn_async\<close> gives (\<open>None\<close> when it fails).\<close>

record spawn_env =
  write_ok :: bool
  spawn_pid :: "nat option"

text \<open>\<^verbatim>\<open>runCommandAsync\<close>; the result is the
  \<^verbatim>\<open>GPid*\<close>, \<open>None\<close> for \<^verbatim>\<open>nullptr\<close>.\<close>

definition runCommandAsync :: "spawn_env \<Rightarrow> state \<Rightarrow> error + (nat option \<times> state)" where
  "runCommandAsync e s =
     (if isUpdating s then Inl AssertionFailed
      else let texContents = LATEX_TEMPLATE_1 @ currentTex s @ LATEX_TEMPLATE_2 in
        if \<not> write_ok e then Inr (None, showErrorToUser CouldNotSaveTexFile s)
        else let s1 = s\<lparr>texFile := Some texContents\<rparr>;
                 s2 = setUpdating True s1;
                 s3 = s2\<lparr>lastPreviewedTex := currentTex s2\<rparr>
             in case spawn_pid e of
                  None \<Rightarrow> Inr (None, setUpdating False (showErrorToUser CouldNotStartPdflatex s3))
                | Some p \<Rightarrow> Inr (Some p, s3\<lparr>children := children s3 @ [(p, texContents)]\<rparr>))"

text \<open>\<^verbatim>\<open>triggerImageUpdate\<close>: \<^verbatim>\<open>g_child_watch_add\<close>
  registers the callback with its data for the child.\<close>

definition triggerImageUpdate :: "bool \<Rightarrow> spawn_env \<Rightarrow> state \<Rightarrow> error + state" where
  "triggerImageUpdate isPreview e s =
     (if isUpdating s then Inr s
      else case runCommandAsync e s of
             Inl err \<Rightarrow> Inl err
           | Inr (None, s1) \<Rightarrow> Inr s1
           | Inr (Some p, s1) \<Rightarrow>
               if \<not> isUpdating s1 then Inl AssertionFailed
               else Inr (s1\<lparr>watches := watches s1 @ [(p, isPreview)]\<rparr>))"

definition setCurrentTex :: "string \<Rightarrow> state \<Rightarrow> state" where
  "setCurrentTex t s = s\<lparr>currentTex := t\<rparr>"

text \<open>\<^verbatim>\<open>handleTexChanged\<close>, with the text of the buffer.\<close>

definition handleTexChanged :: "string \<Rightarrow> spawn_env \<Rightarrow> state \<Rightarrow> error + state" where
  "handleTexChanged buffer e s = triggerImageUpdate True e (setCurrentTex buffer s)"

definition deletePreviousRender :: "state \<Rightarrow> state" where
  "deletePreviousRender s = s\<lparr>temporaryRender := None\<rparr>"

text \<open>\<^verbatim>\<open>setImageInDialog\<close>: the PDF of a \<^verbatim>\<open>TexImage\<close>
  is given by its bytes.\<close>

definition setImageInDialog :: "TexImage \<Rightarrow> state \<Rightarrow> state" where
  "setImageInDialog img s = s\<lparr>dlgTempRender := Some (img_binaryData img, length (currentTex s))\<rparr>"

text \<open>\<^verbatim>\<open>loadRendered\<close>. When \<^verbatim>\<open>convertDocumentToImage\<close>
  returns NULL, \<^verbatim>\<open>img->setBinaryData\<close> is a call through a null
  pointer.\<close>

definition loadRendered :: "state \<Rightarrow> error + (TexImage option \<times> state)" where
  "loadRendered s =
     (case pdfFile s of
        None \<Rightarrow> Inr (None, s)
      | Some Unreadable \<Rightarrow> Inr (None, showErrorToUser CouldNotLoadPdfFileError s)
      | Some (Readable fileContents PopplerError) \<Rightarrow>
          Inr (None, showErrorToUser CouldNotLoadPdfPopplerError s)
      | Some (Readable fileContents PopplerNull) \<Rightarrow>
          Inr (None, showErrorToUser CouldNotLoadPdf s)
      | Some (Readable fileContents (PopplerDocument pages)) \<Rightarrow>
          (case convertDocumentToImage pages s of
             None \<Rightarrow> Inl NullPointerDereference
           | Some img \<Rightarrow> Inr (Some (img\<lparr>img_binaryData := fileContents\<rparr>), s)))"

text \<open>\<^verbatim>\<open>deleteOldImage\<close>; \<^verbatim>\<open>view->getXournal()\<close>
  needs the view.\<close>

definition deleteOldImage :: "state \<Rightarrow> error + state" where
  "deleteOldImage s =
     (case selectedTexImage s of
        Some img \<Rightarrow>
          (case view s of
             None \<Rightarrow> Inl NullPointerDereference
           | Some v \<Rightarrow> Inr (s\<lparr>calls := calls s @ [DeleteSelection (SelectedTex img)],
                                selectedTexImage := None\<rparr>))
      | None \<Rightarrow>
          (case selectedText s of
             Some t \<Rightarrow>
               (case view s of
                  None \<Rightarrow> Inl NullPointerDereference
                | Some v \<Rightarrow> Inr (s\<lparr>calls := calls s @ [DeleteSelection (SelectedText t)],
                                     selectedText := None\<rparr>))
           | None \<Rightarrow> Inr s))"

text \<open>\<^verbatim>\<open>insertTexImage\<close>: the result of the loader goes to the layer,
  the view, the undo handler and the selection as it is.\<close>

definition insertTexImage :: "state \<Rightarrow> error + state" where
  "insertTexImage s =
     (case loadRendered s of
        Inl err \<Rightarrow> Inl err
      | Inr (img, s1) \<Rightarrow>
          (case deleteOldImage s1 of
             Inl err \<Rightarrow> Inl err
           | Inr s2 \<Rightarrow>
               (case layer s2 of
                  None \<Rightarrow> Inl NullPointerDereference
                | Some l \<Rightarrow>
                    (case view s2 of
                       None \<Rightarrow> Inl NullPointerDereference
                     | Some v \<Rightarrow>
                         Inr (s2\<lparr>calls := calls s2 @
                                [DocLock, AddElement l img, RerenderElement v img, DocUnlock,
                                 AddUndoAction (page s2) l img, SetSelection img]\<rparr>)))))"

text \<open>\<^verbatim>\<open>onPdfRenderComplete\<close>, with the wait status of the child and
  the \<^verbatim>\<open>isPreview\<close> of the callback data; \<open>e\<close> is what the
  environment decides should the callback start the next render.\<close>

definition onPdfRenderComplete :: "wait_status \<Rightarrow> bool \<Rightarrow> spawn_env \<Rightarrow> state \<Rightarrow> error + state" where
  "onPdfRenderComplete returnCode isPreview e s =
     (if \<not> isUpdating s then Inl AssertionFailed
      else let shouldUpdate = (lastPreviewedTex s \<noteq> currentTex s) in
        case (case g_spawn_check_exit_status returnCode of
                Some err \<Rightarrow>
                  (let s1 = s\<lparr>isValidTex := False\<rparr>;
                       s2 = (if \<not> g_error_matches_exit err 1
                             then showErrorToUser (PdflatexEncounteredError err) s1 else s1)
                   in Inr (if pdfFile s2 \<noteq> None then s2\<lparr>pdfFile := None\<rparr> else s2))
              | None \<Rightarrow>
                  (let s1 = s\<lparr>isValidTex := True\<rparr> in
                   if isPreview
                   then (case loadRendered (deletePreviousRender s1) of
                           Inl err \<Rightarrow> Inl err
                         | Inr (img, s2) \<Rightarrow>
                             (let s3 = s2\<lparr>temporaryRender := img\<rparr> in
                              Inr (case temporaryRender s3 of
                                     Some r \<Rightarrow> setImageInDialog r s3
                                   | None \<Rightarrow> s3)))
                   else insertTexImage s1)) of
          Inl err \<Rightarrow> Inl err
        | Inr s4 \<Rightarrow>
            (let s5 = setUpdating False s4 in
             if shouldUpdate then triggerImageUpdate True e s5 else Inr s5))"

subsection \<open>The main loop while the dialog is open\<close>

text \<open>
  While \<^verbatim>\<open>dlg->show\<close> runs, the main loop calls the handlers, one
  after the other: the text buffer changes, a watched child ends, and in between the
  child may write or replace \<^verbatim>\<open>tex.pdf\<close>. A child watch is called once,
  for a child that is watched; the end of a child that is not watched calls nothing.
\<close>

datatype event =
    TexChanged string spawn_env
  | ChildExited nat wait_status spawn_env
  | ScratchPdfChanged "scratch_pdf option"

fun step :: "event \<Rightarrow> state \<Rightarrow> error + state" where
  "step (TexChanged buffer e) s = handleTexChanged buffer e (s\<lparr>dlgTex := buffer\<rparr>)"
| "step (ChildExited p returnCode e) s =
     (case find (\<lambda>w. fst w = p) (watches s) of
        None \<Rightarrow> Inr s
      | Some w \<Rightarrow> onPdfRenderComplete returnCode (snd w) e (s\<lparr>watches := remove1 w (watches s)\<rparr>))"
| "step (ScratchPdfChanged f) s = Inr (s\<lparr>pdfFile := f\<rparr>)"

fun run_events :: "event list \<Rightarrow> state \<Rightarrow> error + state" where
  "run_events [] s = Inr s"
| "run_events (ev # evs) s =
     (case step ev s of Inl err \<Rightarrow> Inl err | Inr s' \<Rightarrow> run_events evs s')"

subsection \<open>The session: \<^verbatim>\<open>run\<close>\<close>

text \<open>What \<^verbatim>\<open>findSelectedTexElement\<close> reads: the number of the
  current page, the view of that page (NULL is \<open>None\<close>), the page and its
  selected layer, the selected formula and the selected text (NULL is \<open>None\<close>),
  the position of the selection, and the width and the height as the members take
  them.\<close>

record selection_context =
  currentPageNo :: int
  viewFor :: "nat option"
  pageOf :: nat
  selectedLayer :: "nat option"
  selectedTex :: "TexImage option"
  selectedTxt :: "TextElement option"
  xOnView :: dbl
  yOnView :: dbl

definition findSelectedTexElement :: "selection_context \<Rightarrow> state \<Rightarrow> state" where
  "findSelectedTexElement c s =
     (let s0 = s\<lparr>calls := calls s @ [DocLock]\<rparr> in
      if currentPageNo c = - 1 then s0\<lparr>calls := calls s0 @ [DocUnlock]\<rparr>
      else let s1 = s0\<lparr>view := viewFor c\<rparr> in
        if view s1 = None then s1\<lparr>calls := calls s1 @ [DocUnlock]\<rparr>
        else let s2 = s1\<lparr>page := Some (pageOf c), layer := selectedLayer c\<rparr>;
                 s3 = s2\<lparr>selectedTexImage := selectedTex c, selectedText := selectedTxt c\<rparr>;
                 s4 = (if selectedTexImage s3 \<noteq> None \<or> selectedText s3 \<noteq> None
                       then (let s3' = s3\<lparr>posx := xOnView c, posy := yOnView c\<rparr> in
                             case selectedTexImage s3' of
                               Some img \<Rightarrow>
                                 s3'\<lparr>initalTex := img_text img, imgwidth := img_width img,
                                      imgheight := img_height img\<rparr>
                             | None \<Rightarrow>
                                 (case selectedText s3' of
                                    Some t \<Rightarrow>
                                      s3'\<lparr>initalTex := initalTex s3' @ CHR 0x5C # ''text{'' @
                                             txt_text t @ ''}'',
                                           imgwidth := txt_width t, imgheight := txt_height t\<rparr>
                                  | None \<Rightarrow> s3'))
                       else s3);
                 s5 = (if initalTex s4 = [] then s4\<lparr>initalTex := ''x^2''\<rparr> else s4);
                 s6 = s5\<lparr>currentTex := initalTex s5\<rparr>
             in s6\<lparr>calls := calls s6 @ [DocUnlock, ClearSelectionEndText]\<rparr>)"

text \<open>\<^verbatim>\<open>StringUtils::trim\<close>. Modelled from the spec: StringUtils.cpp
  is not among the sources; the input "trims to empty" after the white space at both of
  its ends has been removed (the white space of \<^verbatim>\<open>isspace\<close>: the blank
  and the characters 9 to 13).\<close>

definition isspace :: "char \<Rightarrow> bool" where
  "isspace c = (c \<in> set [CHR 0x20, CHR 0x09, CHR 0x0A, CHR 0x0B, CHR 0x0C, CHR 0x0D])"

definition trim :: "string \<Rightarrow> string" where
  "trim str = rev (dropWhile isspace (rev (dropWhile isspace str)))"

text \<open>What happens while the dialog is open: the events the main loop delivers until
  the dialog closes, and the text \<^verbatim>\<open>dlg->getTex()\<close> returns after
  that.\<close>

record dialog_session =
  dlg_events :: "event list"
  dlg_getTex :: string

text \<open>\<^verbatim>\<open>showTexEditDialog\<close>: the signal is connected after
  \<^verbatim>\<open>setTex\<close>, so setting the initial text calls no handler;
  \<^verbatim>\<open>dlg->show\<close> returns when the dialog closes; the text of the dialog
  is stored with a blank after it.\<close>

definition showTexEditDialog :: "dialog_session \<Rightarrow> state \<Rightarrow> error + state" where
  "showTexEditDialog d s =
     (let s1 = s\<lparr>dlgTex := initalTex s\<rparr>;
          s2 = (case temporaryRender s1 of
                  Some r \<Rightarrow> s1\<lparr>dlgTempRender := Some (img_binaryData r, length (initalTex s1))\<rparr>
                | None \<Rightarrow> s1)
      in case run_events (dlg_events d) s2 of
           Inl err \<Rightarrow> Inl err
         | Inr s3 \<Rightarrow>
             (let s4 = deletePreviousRender s3;
                  s5 = s4\<lparr>currentTex := dlg_getTex d\<rparr>
              in Inr (s5\<lparr>currentTex := currentTex s5 @ '' ''\<rparr>)))"

text \<open>What \<^verbatim>\<open>run\<close> meets: the path
  \<^verbatim>\<open>g_find_program_in_path\<close> finds for pdflatex, the selection, and the
  session of the dialog.\<close>

record run_env =
  pdflatex_in_path :: "string option"
  selection :: selection_context
  dialog :: dialog_session

text \<open>\<^verbatim>\<open>findTexExecutable\<close>, with the result of the search.\<close>

definition findTexExecutable :: "string option \<Rightarrow> state \<Rightarrow> bool \<times> state" where
  "findTexExecutable pdflatex s =
     (case pdflatex of
        None \<Rightarrow> (False, s)
      | Some path \<Rightarrow> (True, s\<lparr>binTex := path\<rparr>))"

definition run :: "run_env \<Rightarrow> state \<Rightarrow> error + state" where
  "run r s =
     (case findTexExecutable (pdflatex_in_path r) s of
        (False, s0) \<Rightarrow> Inr (showErrorToUser CouldNotFindPdflatex s0)
      | (True, s0) \<Rightarrow>
          (let s1 = findSelectedTexElement (selection r) s0 in
           case showTexEditDialog (dialog r) s1 of
             Inl err \<Rightarrow> Inl err
           | Inr s2 \<Rightarrow>
               if trim (currentTex s2) = [] \<or> initalTex s2 = currentTex s2
               then Inr s2
               else insertTexImage s2))"

text \<open>A controller as its constructor leaves it, in a session that has not started.
  Modelled from the spec: LatexController.h, which declares the members and what they
  start with, is not among the sources. A session starts idle: no render is in flight, no
  formula has been rendered valid, nothing is selected and there is no preview; the
  strings are empty, as C++ constructs them, and the numbers are zero. The button of the
  dialog is sensitive and its label empty, as GTK makes them; there is no scratch file, no
  child, no message, no call.\<close>

definition new_LatexController :: state where
  "new_LatexController =
     \<lparr>binTex = [], initalTex = [], currentTex = [], lastPreviewedTex = [],
      isUpdating = False, isValidTex = False,
      posx = Finite False 0, posy = Finite False 0, imgwidth = Finite False 0, imgheight = Finite False 0,
      view = None, page = None, layer = None,
      selectedTexImage = None, selectedText = None, temporaryRender = None,
      dlgTex = [], okSensitive = True, errorLabel = [], dlgTempRender = None,
      texFile = None, pdfFile = None, children = [], watches = [],
      messages = [], calls = []\<rparr>"

subsection \<open>Notions of the statements\<close>

text \<open>The renders outstanding are the child watches not yet called: one for each child
  that was started and whose callback has not run. A session is single-flight when at most
  one is outstanding, and \<open>isUpdating\<close> says whether one is.\<close>

definition single_flight :: "state \<Rightarrow> bool" where
  "single_flight s = (length (watches s) \<le> 1 \<and> (isUpdating s \<longleftrightarrow> watches s \<noteq> []))"

text \<open>The part of \<^verbatim>\<open>onPdfRenderComplete\<close> between the assertion and
  \<^verbatim>\<open>setUpdating(false)\<close>: the two branches on the error of the exit
  status (see \<open>onPdfRenderComplete_body\<close> below).\<close>

definition completion_body :: "wait_status \<Rightarrow> bool \<Rightarrow> state \<Rightarrow> error + state" where
  "completion_body returnCode isPreview s =
     (case g_spawn_check_exit_status returnCode of
                Some err \<Rightarrow>
                  (let s1 = s\<lparr>isValidTex := False\<rparr>;
                       s2 = (if \<not> g_error_matches_exit err 1
                             then showErrorToUser (PdflatexEncounteredError err) s1 else s1)
                   in Inr (if pdfFile s2 \<noteq> None then s2\<lparr>pdfFile := None\<rparr> else s2))
              | None \<Rightarrow>
                  (let s1 = s\<lparr>isValidTex := True\<rparr> in
                   if isPreview
                   then (case loadRendered (deletePreviousRender s1) of
                           Inl err \<Rightarrow> Inl err
                         | Inr (img, s2) \<Rightarrow>
                             (let s3 = s2\<lparr>temporaryRender := img\<rparr> in
                              Inr (case temporaryRender s3 of
                                     Some r \<Rightarrow> setImageInDialog r s3
                                   | None \<Rightarrow> s3)))
                   else insertTexImage s1))"

text \<open>The text of the buffer and the scratch PDF after a list of events; the events
  that are the end of a child; the contents of \<^verbatim>\<open>tex.tex\<close> for a
  formula.\<close>

fun input_after :: "string \<Rightarrow> event list \<Rightarrow> string" where
  "input_after t [] = t"
| "input_after t (TexChanged buffer e # evs) = input_after buffer evs"
| "input_after t (ev # evs) = input_after t evs"

fun is_exit :: "event \<Rightarrow> bool" where
  "is_exit (ChildExited p rc e) = True"
| "is_exit ev = False"

definition tex_file_for :: "string \<Rightarrow> string" where
  "tex_file_for t = LATEX_TEMPLATE_1 @ t @ LATEX_TEMPLATE_2"

fun pdf_after :: "scratch_pdf option \<Rightarrow> event list \<Rightarrow> scratch_pdf option" where
  "pdf_after f [] = f"
| "pdf_after f (ScratchPdfChanged g # evs) = pdf_after g evs"
| "pdf_after f (ev # evs) = pdf_after f evs"

text \<open>Concrete environments for the examples: a render that can be started, with the
  process id it gets, and a PDF of one page, 20 by 10.\<close>

definition env_ok :: "nat \<Rightarrow> spawn_env" where
  "env_ok p = \<lparr>write_ok = True, spawn_pid = Some p\<rparr>"

definition one_page_pdf :: scratch_pdf where
  "one_page_pdf = Readable ''%PDF'' (PopplerDocument [(Finite False 20, Finite False 10)])"

text \<open>The messages a follow-up render adds when the callback triggers one and it cannot
  be started; the commit button is blocked while the formula is invalid.\<close>

definition followup_messages :: "spawn_env \<Rightarrow> state \<Rightarrow> user_message list" where
  "followup_messages e s =
     (if lastPreviewedTex s = currentTex s then []
      else if \<not> write_ok e then [CouldNotSaveTexFile]
      else if spawn_pid e = None then [CouldNotStartPdflatex]
      else [])"

definition invalid_blocks_commit :: "state \<Rightarrow> bool" where
  "invalid_blocks_commit s = (\<not> isValidTex s \<longrightarrow> \<not> okSensitive s)"

text \<open>The scratch PDFs for which \<^verbatim>\<open>loadRendered\<close> returns NULL: no
  file, a file that cannot be read, and bytes from which Poppler gives no document. The
  calls by which \<^verbatim>\<open>deleteOldImage\<close> removes the selected element.
  Selections for the examples: no current page; a page with a selected text; a page with a
  selected formula, whose text ends in the blank the controller stores.\<close>

fun loader_returns_null :: "scratch_pdf option \<Rightarrow> bool" where
  "loader_returns_null None = True"
| "loader_returns_null (Some Unreadable) = True"
| "loader_returns_null (Some (Readable fileContents PopplerError)) = True"
| "loader_returns_null (Some (Readable fileContents PopplerNull)) = True"
| "loader_returns_null (Some (Readable fileContents (PopplerDocument pages))) = False"

definition deleted_selection :: "state \<Rightarrow> doc_call list" where
  "deleted_selection s =
     (case selectedTexImage s of
        Some img \<Rightarrow> [DeleteSelection (SelectedTex img)]
      | None \<Rightarrow> (case selectedText s of
                   Some t \<Rightarrow> [DeleteSelection (SelectedText t)]
                 | None \<Rightarrow> []))"

definition no_page :: selection_context where
  "no_page = \<lparr>currentPageNo = - 1, viewFor = None, pageOf = 0, selectedLayer = None,
     selectedTex = None, selectedTxt = None, xOnView = Finite False 0, yOnView = Finite False 0\<rparr>"

definition page_with_text :: selection_context where
  "page_with_text = \<lparr>currentPageNo = 0, viewFor = Some 0, pageOf = 0, selectedLayer = Some 0,
     selectedTex = None,
     selectedTxt = Some \<lparr>txt_text = ''abc'', txt_width = Finite False 30, txt_height = Finite False 12\<rparr>,
     xOnView = Finite False 5, yOnView = Finite False 6\<rparr>"

definition page_with_formula :: selection_context where
  "page_with_formula = \<lparr>currentPageNo = 0, viewFor = Some 0, pageOf = 0, selectedLayer = Some 0,
     selectedTex = Some \<lparr>img_x = Finite False 5, img_y = Finite False 6, img_text = ''x^2 '',
        img_width = Finite False 30, img_height = Finite False 12, img_binaryData = ''%PDF''\<rparr>,
     selectedTxt = None, xOnView = Finite False 5, yOnView = Finite False 6\<rparr>"

text \<open>The calls that change nothing in the document: locking, unlocking and clearing
  the selection. Sessions for the examples: a page on which nothing is selected; a dialog
  that opens on the default input and returns it untouched; a dialog that opens on the
  selected formula and returns its text untouched; a dialog that closes after the child
  has written a PDF without a page and before its callback has run.\<close>

definition bookkeeping_calls :: "doc_call set" where
  "bookkeeping_calls = {DocLock, DocUnlock, ClearSelectionEndText}"

definition empty_page :: selection_context where
  "empty_page = \<lparr>currentPageNo = 0, viewFor = Some 0, pageOf = 0, selectedLayer = Some 0,
     selectedTex = None, selectedTxt = None, xOnView = Finite False 0, yOnView = Finite False 0\<rparr>"

definition untouched_default_session :: run_env where
  "untouched_default_session =
     \<lparr>pdflatex_in_path = Some ''/usr/bin/pdflatex'',
      selection = empty_page,
      dialog = \<lparr>dlg_events = [], dlg_getTex = ''x^2''\<rparr>\<rparr>"

definition untouched_formula_session :: run_env where
  "untouched_formula_session =
     \<lparr>pdflatex_in_path = Some ''/usr/bin/pdflatex'',
      selection = page_with_formula,
      dialog = \<lparr>dlg_events = [], dlg_getTex = ''x^2 ''\<rparr>\<rparr>"

definition zero_page_session :: run_env where
  "zero_page_session =
     \<lparr>pdflatex_in_path = Some ''/usr/bin/pdflatex'',
      selection = empty_page,
      dialog = \<lparr>dlg_events = [TexChanged ''y'' (env_ok 1),
                               ScratchPdfChanged (Some (Readable ''%PDF'' (PopplerDocument [])))],
                dlg_getTex = ''y''\<rparr>\<rparr>"

section \<open>Lemmas\<close>

lemmas eval_defs = env_ok_def one_page_pdf_def new_LatexController_def handleTexChanged_def
  triggerImageUpdate_def runCommandAsync_def setUpdating_def setCurrentTex_def
  onPdfRenderComplete_def loadRendered_def convertDocumentToImage_def deletePreviousRender_def
  setImageInDialog_def showErrorToUser_def new_TexImage_def truthy_def Let_def

text \<open>The exponent is the right one, and the arithmetic rounds as the hardware does:
  three times a tenth is 0.30000000000000004, a quotient below half the least double
  is zero, a product beyond the greatest double is an infinity, and a division by minus
  zero gives the infinity of the other sign.\<close>

lemma floor_log2_bounds:
  assumes "0 < q"
  shows "pow2 (floor_log2 q) \<le> q \<and> q < pow2 (floor_log2 q + 1)"
proof (cases "1 \<le> q")
  case True
  define m where "m = \<lfloor>q\<rfloor>"
  have m: "1 \<le> m" using True by (simp add: m_def le_floor_iff)
  then have b: "1 \<le> bitlen m" by (simp add: bitlen_alt_def)
  have e: "floor_log2 q = bitlen m - 1" using True by (simp add: floor_log2_def m_def)
  from bitlen_bounds [of m] m
  have lo: "2 ^ nat (bitlen m - 1) \<le> m" and hi: "m < 2 ^ nat (bitlen m)" by simp_all
  have "real_of_int (2 ^ nat (bitlen m - 1)) \<le> real_of_int m" using lo by (simp only: of_int_le_iff)
  also have "\<dots> \<le> q" by (simp add: m_def)
  finally have l: "2 ^ nat (bitlen m - 1) \<le> q" by simp
  from hi have "m + 1 \<le> 2 ^ nat (bitlen m)" by simp
  then have "real_of_int (m + 1) \<le> real_of_int (2 ^ nat (bitlen m))" by (simp only: of_int_le_iff)
  moreover have "q < real_of_int (m + 1)" by (simp add: m_def)
  ultimately have h: "q < 2 ^ nat (bitlen m)" by simp
  from l h b show ?thesis by (simp add: e pow2_def)
next
  case False
  define c where "c = \<lceil>1 / q\<rceil>"
  define k where "k = bitlen (c - 1)"
  from False assms have x: "1 < 1 / q" by simp
  then have c: "2 \<le> c" by (simp add: c_def le_ceiling_iff)
  then have k: "1 \<le> k" by (simp add: k_def bitlen_alt_def)
  have e: "floor_log2 q = - k" using False by (simp add: floor_log2_def k_def c_def)
  from bitlen_bounds [of "c - 1"] c
  have lo: "2 ^ nat (k - 1) \<le> c - 1" and hi: "c - 1 < 2 ^ nat k" by (simp_all add: k_def)
  from hi have "c \<le> 2 ^ nat k" by simp
  then have "real_of_int c \<le> real_of_int (2 ^ nat k)" by (simp only: of_int_le_iff)
  then have ck: "real_of_int c \<le> 2 ^ nat k" by (simp only: of_int_power of_int_numeral)
  have "1 / q \<le> real_of_int c" by (simp add: c_def)
  from this ck have "1 / q \<le> 2 ^ nat k" by (rule order_trans)
  then have l: "1 / 2 ^ nat k \<le> q" using assms by (simp add: field_simps)
  have "real_of_int (2 ^ nat (k - 1)) \<le> real_of_int (c - 1)" using lo by (simp only: of_int_le_iff)
  moreover have "real_of_int (c - 1) < 1 / q" unfolding c_def by linarith
  ultimately have "2 ^ nat (k - 1) < 1 / q" by simp
  then have h: "q < 1 / 2 ^ nat (k - 1)" using assms by (simp add: field_simps)
  show ?thesis
  proof (cases "k = 1")
    case True
    with l h show ?thesis by (simp add: e pow2_def)
  next
    case False
    with k have "1 < k" by simp
    with l h show ?thesis by (simp add: e pow2_def)
  qed
qed

lemmas dbl_eval = rounded_def round_double_def round_half_even_def floor_log2_def pow2_def
  compute_bitlen Let_def

lemma double_tenth: "ddiv (Finite False 1) (Finite False 10)
   = Finite False (3602879701896397 / 36028797018963968)"
  by (simp add: dbl_eval)

lemma double_three_tenths:
  "dmul (Finite False 3) (ddiv (Finite False 1) (Finite False 10))
   = Finite False (1351079888211149 / 4503599627370496)"
  by (simp add: double_tenth) (simp add: dbl_eval)

lemma bitlen_below_power: "0 < n \<Longrightarrow> bitlen (2 ^ n - 1) = int n"
  using bitlen_twopow_add_eq [of "2 ^ (n - 1) - 1" "n - 1"]
  by (cases n) simp_all

lemma floor_log2_power: "floor_log2 (2 ^ n) = int n"
proof -
  have "\<lfloor>(2::real) ^ n\<rfloor> = 2 ^ n"
    by (metis floor_of_int of_int_numeral of_int_power)
  moreover have "bitlen (2 ^ n) = int n + 1"
    using bitlen_twopow_add_eq [of 0 n] by simp
  ultimately show ?thesis by (simp add: floor_log2_def)
qed

lemma floor_log2_inverse_power: "0 < n \<Longrightarrow> floor_log2 (1 / 2 ^ n) = - int n"
proof -
  assume n: "0 < n"
  have "\<lceil>(2::real) ^ n\<rceil> = 2 ^ n"
    by (metis ceiling_of_int of_int_numeral of_int_power)
  moreover have "\<not> (2::real) ^ n \<le> 1" using n by (simp add: not_le one_less_power)
  ultimately show ?thesis using n by (simp add: floor_log2_def bitlen_below_power)
qed

lemma double_underflow:
  "ddiv (Finite False (1 / 2 ^ 600)) (Finite False (2 ^ 600)) = Finite False 0"
proof -
  have nz: "((2::real) ^ 600 = 0) = False" by simp
  have q: "(1 / 2 ^ 600) / (2 ^ 600 :: real) = 1 / 2 ^ 1200"
    by (simp add: power_add [symmetric])
  have r: "round_double (1 / 2 ^ 1200) = Some 0"
    using floor_log2_inverse_power [of 1200]
    by (simp add: round_double_def round_half_even_def pow2_def Let_def)
  have "ddiv (Finite False (1 / 2 ^ 600)) (Finite False (2 ^ 600))
          = rounded False (1 / 2 ^ 600 / 2 ^ 600)"
    by (simp only: ddiv.simps nz if_False simp_thms)
  also have "\<dots> = Finite False 0"
    by (simp only: q rounded_def r option.case)
  finally show ?thesis .
qed

lemma double_overflow:
  "dmul (Finite False (2 ^ 600)) (Finite False (2 ^ 600)) = Infinite False"
proof -
  have q: "(2::real) ^ 600 * 2 ^ 600 = 2 ^ 1200" by (simp add: power_add [symmetric])
  have r: "round_double (2 ^ 1200) = None"
    using floor_log2_power [of 1200]
    by (simp add: round_double_def round_half_even_def pow2_def Let_def)
  have "dmul (Finite False (2 ^ 600)) (Finite False (2 ^ 600)) = rounded False (2 ^ 600 * 2 ^ 600)"
    by (simp only: dmul.simps simp_thms)
  also have "\<dots> = Infinite False"
    by (simp only: q rounded_def r option.case)
  finally show ?thesis .
qed

lemma double_negative_zero:
  "ddiv (Finite False 20) (Finite True 0) = Infinite True"
  by simp

lemma setUpdating_eq:
  "setUpdating b s = s\<lparr>okSensitive := isValidTex s,
      errorLabel := (if isValidTex s then [] else ''The formula is empty when rendered or invalid.''),
      isUpdating := b\<rparr>"
  by (simp add: setUpdating_def Let_def)

lemma triggerImageUpdate_eq:
  "triggerImageUpdate ip e s =
    (if isUpdating s then Inr s
     else if \<not> write_ok e then Inr (showErrorToUser CouldNotSaveTexFile s)
     else (case spawn_pid e of
        None \<Rightarrow> Inr (setUpdating False (showErrorToUser CouldNotStartPdflatex
                  (setUpdating True (s\<lparr>texFile := Some (LATEX_TEMPLATE_1 @ currentTex s @ LATEX_TEMPLATE_2)\<rparr>)
                   \<lparr>lastPreviewedTex := currentTex s\<rparr>)))
      | Some p \<Rightarrow> Inr (setUpdating True (s\<lparr>texFile := Some (LATEX_TEMPLATE_1 @ currentTex s @ LATEX_TEMPLATE_2)\<rparr>)
                   \<lparr>lastPreviewedTex := currentTex s,
                    children := children s @ [(p, LATEX_TEMPLATE_1 @ currentTex s @ LATEX_TEMPLATE_2)],
                    watches := watches s @ [(p, ip)]\<rparr>)))"
  by (simp add: triggerImageUpdate_def runCommandAsync_def Let_def setUpdating_eq showErrorToUser_def split: option.splits)

lemma loadRendered_keeps:
  "loadRendered s = Inr (img, s') \<Longrightarrow> s' = s\<lparr>messages := messages s'\<rparr>"
  by (auto simp: loadRendered_def showErrorToUser_def
      split: option.splits scratch_pdf.splits poppler_result.splits)

lemma loadRendered_frame:
  "loadRendered s = Inr (img, s') \<Longrightarrow> \<exists>ms. s' = s\<lparr>messages := ms\<rparr>"
  by (rule exI, erule loadRendered_keeps)

lemma deleteOldImage_keeps:
  "deleteOldImage s = Inr s' \<Longrightarrow>
     s' = s\<lparr>selectedTexImage := selectedTexImage s', selectedText := selectedText s',
            calls := calls s'\<rparr>"
  by (auto simp: deleteOldImage_def split: option.splits)

lemma deleteOldImage_frame:
  "deleteOldImage s = Inr s' \<Longrightarrow>
     \<exists>a b cs. s' = s\<lparr>selectedTexImage := a, selectedText := b, calls := cs\<rparr>"
  by (rule exI, rule exI, rule exI, erule deleteOldImage_keeps)

lemma insertTexImage_frame:
  assumes "insertTexImage s = Inr s'"
  shows "\<exists>a b ms cs. s' = s\<lparr>selectedTexImage := a, selectedText := b, messages := ms, calls := cs\<rparr>"
proof -
  from assms obtain img s1 s2 l v where
    l: "loadRendered s = Inr (img, s1)" and d: "deleteOldImage s1 = Inr s2"
    and s': "s' = s2\<lparr>calls := calls s2 @
         [DocLock, AddElement l img, RerenderElement v img, DocUnlock,
          AddUndoAction (page s2) l img, SetSelection img]\<rparr>"
    by (auto simp: insertTexImage_def split: sum.splits option.splits prod.splits)
  from loadRendered_frame [OF l] obtain ms where s1: "s1 = s\<lparr>messages := ms\<rparr>" by blast
  from deleteOldImage_frame [OF d] obtain cs a b where
    s2: "s2 = s1\<lparr>selectedTexImage := a, selectedText := b, calls := cs\<rparr>" by blast
  have "s' = s\<lparr>selectedTexImage := a, selectedText := b, messages := ms,
     calls := cs @ [DocLock, AddElement l img, RerenderElement v img, DocUnlock,
          AddUndoAction (page s) l img, SetSelection img]\<rparr>"
    by (simp add: s' s2 s1)
  then show ?thesis by blast
qed

lemma onPdfRenderComplete_body:
  "onPdfRenderComplete rc ip e s =
     (if \<not> isUpdating s then Inl AssertionFailed
      else case completion_body rc ip s of
             Inl err \<Rightarrow> Inl err
           | Inr s4 \<Rightarrow>
               if lastPreviewedTex s \<noteq> currentTex s
               then triggerImageUpdate True e (setUpdating False s4)
               else Inr (setUpdating False s4))"
  unfolding onPdfRenderComplete_def completion_body_def Let_def by (rule refl)

lemma completion_body_error:
  "g_spawn_check_exit_status rc = Some err \<Longrightarrow>
   completion_body rc ip s =
     Inr (s\<lparr>isValidTex := False, pdfFile := None,
            messages := (if g_error_matches_exit err 1 then messages s
                         else messages s @ [PdflatexEncounteredError err])\<rparr>)"
  by (simp add: completion_body_def showErrorToUser_def Let_def)

lemma completion_body_frame:
  assumes "completion_body rc ip s = Inr s4"
  shows "\<exists>v a b r dr f ms cs. s4 = s\<lparr>isValidTex := v, selectedTexImage := a, selectedText := b,
            temporaryRender := r, dlgTempRender := dr, pdfFile := f, messages := ms, calls := cs\<rparr>"
proof -
  have "s4 = s\<lparr>isValidTex := isValidTex s4, selectedTexImage := selectedTexImage s4,
            selectedText := selectedText s4, temporaryRender := temporaryRender s4,
            dlgTempRender := dlgTempRender s4, pdfFile := pdfFile s4,
            messages := messages s4, calls := calls s4\<rparr>"
  proof (cases "g_spawn_check_exit_status rc")
    case (Some err)
    with assms show ?thesis
      by (auto simp: completion_body_error [OF Some])
  next
    case None
    show ?thesis
    proof (cases ip)
      case True
      with None assms obtain img s2 where
        l: "loadRendered (deletePreviousRender (s\<lparr>isValidTex := True\<rparr>)) = Inr (img, s2)"
        and s4: "s4 = (case img of Some r \<Rightarrow> setImageInDialog r (s2\<lparr>temporaryRender := img\<rparr>)
                        | None \<Rightarrow> s2\<lparr>temporaryRender := img\<rparr>)"
        by (auto simp: completion_body_def Let_def split: sum.splits prod.splits)
      from loadRendered_frame [OF l] obtain ms where
        s2: "s2 = deletePreviousRender (s\<lparr>isValidTex := True\<rparr>)\<lparr>messages := ms\<rparr>" by blast
      show ?thesis
        by (simp add: s4 s2 deletePreviousRender_def setImageInDialog_def split: option.splits)
    next
      case False
      with None assms have "insertTexImage (s\<lparr>isValidTex := True\<rparr>) = Inr s4"
        by (simp add: completion_body_def Let_def)
      from insertTexImage_frame [OF this] obtain ms cs a b where
        "s4 = s\<lparr>isValidTex := True\<rparr>\<lparr>selectedTexImage := a, selectedText := b, messages := ms, calls := cs\<rparr>"
        by blast
      then show ?thesis by simp
    qed
  qed
  then show ?thesis by (intro exI)
qed

lemma completion_flight:
  assumes "isUpdating s" "watches s = []" "onPdfRenderComplete rc ip e s = Inr s'"
  shows "single_flight s'"
proof -
  from assms obtain s4 where b: "completion_body rc ip s = Inr s4"
    and s': "(if lastPreviewedTex s \<noteq> currentTex s
               then triggerImageUpdate True e (setUpdating False s4)
               else Inr (setUpdating False s4)) = Inr s'"
    by (auto simp: onPdfRenderComplete_body split: sum.splits)
  from completion_body_frame [OF b] obtain v a b r dr f ms cs where
    s4: "s4 = s\<lparr>isValidTex := v, selectedTexImage := a, selectedText := b,
            temporaryRender := r, dlgTempRender := dr, pdfFile := f, messages := ms, calls := cs\<rparr>"
    by blast
  from s' show ?thesis
    by (auto simp: s4 assms(2) triggerImageUpdate_eq setUpdating_eq showErrorToUser_def single_flight_def
        split: if_splits option.splits)
qed

lemma completion_no_assert:
  assumes "isUpdating s"
  shows "onPdfRenderComplete rc ip e s \<noteq> Inl AssertionFailed"
proof
  assume a: "onPdfRenderComplete rc ip e s = Inl AssertionFailed"
  have l: "loadRendered t \<noteq> Inl AssertionFailed" for t
    by (auto simp: loadRendered_def split: option.splits scratch_pdf.splits poppler_result.splits)
  have d: "deleteOldImage t \<noteq> Inl AssertionFailed" for t
    by (auto simp: deleteOldImage_def split: option.splits)
  have i: "insertTexImage t \<noteq> Inl AssertionFailed" for t
    using l d by (auto simp: insertTexImage_def split: sum.splits option.splits prod.splits)
  have b: "completion_body rc ip s \<noteq> Inl AssertionFailed"
    using l i by (auto simp: completion_body_def Let_def split: sum.splits option.splits prod.splits)
  have t: "triggerImageUpdate ip' e t \<noteq> Inl AssertionFailed" for t ip'
    by (auto simp: triggerImageUpdate_eq split: option.splits)
  from a assms b t show False
    by (auto simp: onPdfRenderComplete_body split: sum.splits if_splits)
qed


lemma find_watch:
  assumes "single_flight s" "find (\<lambda>w. fst w = p) (watches s) = Some w"
  shows "watches s = [w] \<and> isUpdating s"
proof -
  from assms(2) have "w \<in> set (watches s)"
    by (auto simp: find_Some_iff)
  with assms(1) show ?thesis
    by (cases "watches s") (auto simp: single_flight_def)
qed

lemma step_flight:
  assumes "single_flight s" "step ev s = Inr s'"
  shows "single_flight s'"
proof (cases ev)
  case (TexChanged buffer e)
  with assms show ?thesis
    by (auto simp: handleTexChanged_def setCurrentTex_def triggerImageUpdate_eq setUpdating_eq
          showErrorToUser_def single_flight_def split: if_splits option.splits)
next
  case (ChildExited p rc e)
  show ?thesis
  proof (cases "find (\<lambda>w. fst w = p) (watches s)")
    case None
    with assms ChildExited show ?thesis by simp
  next
    case (Some w)
    from find_watch [OF assms(1) Some] have w: "watches s = [w]" and u: "isUpdating s" by simp_all
    from assms(2) ChildExited Some
    have "onPdfRenderComplete rc (snd w) e (s\<lparr>watches := remove1 w (watches s)\<rparr>) = Inr s'"
      by simp
    then show ?thesis
      by (rule completion_flight [rotated 2]) (simp_all add: w u)
  qed
next
  case (ScratchPdfChanged f)
  with assms show ?thesis by (auto simp: single_flight_def)
qed

lemma step_no_assert:
  assumes "single_flight s"
  shows "step ev s \<noteq> Inl AssertionFailed"
proof (cases ev)
  case (TexChanged buffer e)
  then show ?thesis
    by (auto simp: handleTexChanged_def triggerImageUpdate_eq split: option.splits)
next
  case (ChildExited p rc e)
  show ?thesis
  proof (cases "find (\<lambda>w. fst w = p) (watches s)")
    case None
    with ChildExited show ?thesis by simp
  next
    case (Some w)
    from find_watch [OF assms Some] have u: "isUpdating (s\<lparr>watches := remove1 w (watches s)\<rparr>)"
      by simp
    from completion_no_assert [OF u] ChildExited Some show ?thesis by simp
  qed
next
  case (ScratchPdfChanged f)
  then show ?thesis by simp
qed

lemma run_events_flight:
  "single_flight s \<Longrightarrow> run_events evs s = Inr s' \<Longrightarrow> single_flight s'"
proof (induction evs arbitrary: s)
  case Nil
  then show ?case by simp
next
  case (Cons ev evs)
  then show ?case
    by (auto split: sum.splits dest: step_flight)
qed

lemma run_events_no_assert:
  "single_flight s \<Longrightarrow> run_events evs s \<noteq> Inl AssertionFailed"
proof (induction evs arbitrary: s)
  case Nil
  then show ?case by simp
next
  case (Cons ev evs)
  show ?case
  proof (cases "step ev s")
    case (Inl err)
    with step_no_assert [OF Cons.prems, of ev] show ?thesis by auto
  next
    case (Inr s1)
    with Cons.IH [OF step_flight [OF Cons.prems Inr]] show ?thesis by simp
  qed
qed

lemma in_flight_events:
  assumes "isUpdating s" "list_all (\<lambda>ev. \<not> is_exit ev) mid"
  shows "run_events mid s =
           Inr (s\<lparr>currentTex := input_after (currentTex s) mid,
                  dlgTex := input_after (dlgTex s) mid, pdfFile := pdf_after (pdfFile s) mid\<rparr>)"
  using assms
proof (induction mid arbitrary: s)
  case Nil
  show ?case by simp
next
  case (Cons ev mid)
  show ?case
  proof (cases ev)
    case (TexChanged buffer e)
    let ?s1 = "s\<lparr>dlgTex := buffer, currentTex := buffer\<rparr>"
    have st: "step ev s = Inr ?s1"
      using Cons.prems TexChanged
      by (simp add: handleTexChanged_def setCurrentTex_def triggerImageUpdate_eq)
    from Cons.prems have "isUpdating ?s1" "list_all (\<lambda>ev. \<not> is_exit ev) mid" by simp_all
    from Cons.IH [OF this] st TexChanged show ?thesis by simp
  next
    case (ChildExited p rc e)
    with Cons.prems show ?thesis by simp
  next
    case (ScratchPdfChanged g)
    let ?s1 = "s\<lparr>pdfFile := g\<rparr>"
    have st: "step ev s = Inr ?s1" using ScratchPdfChanged by simp
    from Cons.prems have "isUpdating ?s1" "list_all (\<lambda>ev. \<not> is_exit ev) mid" by simp_all
    from Cons.IH [OF this] st ScratchPdfChanged show ?thesis by simp
  qed
qed


lemma completion_children:
  assumes "isUpdating s" "watches s = []" "onPdfRenderComplete rc ip e s = Inr s'"
  shows "currentTex s' = currentTex s \<and>
    (if lastPreviewedTex s \<noteq> currentTex s \<and> write_ok e \<and> spawn_pid e \<noteq> None
     then children s' = children s @ [(the (spawn_pid e), LATEX_TEMPLATE_1 @ currentTex s @ LATEX_TEMPLATE_2)]
        \<and> watches s' = [(the (spawn_pid e), True)] \<and> isUpdating s'
        \<and> lastPreviewedTex s' = currentTex s
     else children s' = children s \<and> watches s' = [] \<and> \<not> isUpdating s')"
proof -
  from assms obtain s4 where b: "completion_body rc ip s = Inr s4"
    and s': "(if lastPreviewedTex s \<noteq> currentTex s
               then triggerImageUpdate True e (setUpdating False s4)
               else Inr (setUpdating False s4)) = Inr s'"
    by (auto simp: onPdfRenderComplete_body split: sum.splits)
  from completion_body_frame [OF b] obtain v a b r dr f ms cs where
    s4: "s4 = s\<lparr>isValidTex := v, selectedTexImage := a, selectedText := b,
            temporaryRender := r, dlgTempRender := dr, pdfFile := f, messages := ms, calls := cs\<rparr>"
    by blast
  show ?thesis
  proof (cases "lastPreviewedTex s \<noteq> currentTex s")
    case False
    with s' have "s' = setUpdating False s4" by simp
    with False show ?thesis by (simp add: s4 setUpdating_eq assms(2))
  next
    case True
    with s' have t: "triggerImageUpdate True e (setUpdating False s4) = Inr s'" by simp
    show ?thesis
    proof (cases "write_ok e")
      case False
      with t have "s' = showErrorToUser CouldNotSaveTexFile (setUpdating False s4)"
        by (simp add: triggerImageUpdate_eq setUpdating_eq)
      with False show ?thesis by (simp add: s4 setUpdating_eq showErrorToUser_def assms(2))
    next
      case w: True
      show ?thesis
      proof (cases "spawn_pid e")
        case None
        with t w have "s' = setUpdating False (showErrorToUser CouldNotStartPdflatex
                  (setUpdating True (setUpdating False s4\<lparr>texFile := Some (LATEX_TEMPLATE_1 @ currentTex (setUpdating False s4) @ LATEX_TEMPLATE_2)\<rparr>)
                   \<lparr>lastPreviewedTex := currentTex (setUpdating False s4)\<rparr>))"
          by (simp add: triggerImageUpdate_eq setUpdating_eq)
        with None show ?thesis by (simp add: s4 setUpdating_eq showErrorToUser_def assms(2))
      next
        case (Some q)
        with t w have "s' = setUpdating True (setUpdating False s4\<lparr>texFile := Some (LATEX_TEMPLATE_1 @ currentTex (setUpdating False s4) @ LATEX_TEMPLATE_2)\<rparr>)
                   \<lparr>lastPreviewedTex := currentTex (setUpdating False s4),
                    children := children (setUpdating False s4) @ [(q, LATEX_TEMPLATE_1 @ currentTex (setUpdating False s4) @ LATEX_TEMPLATE_2)],
                    watches := watches (setUpdating False s4) @ [(q, True)]\<rparr>"
          by (simp add: triggerImageUpdate_eq setUpdating_eq)
        with Some w True show ?thesis by (simp add: s4 setUpdating_eq assms(2))
      qed
    qed
  qed
qed


lemma run_events_append:
  "run_events (xs @ ys) s = (case run_events xs s of Inl err \<Rightarrow> Inl err | Inr s' \<Rightarrow> run_events ys s')"
  by (induction xs arbitrary: s) (auto split: sum.splits)

lemma step_children:
  assumes "single_flight s" "step ev s = Inr s'"
  shows "children s' = children s \<or>
         ((\<exists>c. children s' = children s @ [c] \<and> watches s' = [(fst c, True)]) \<and>
          (isUpdating s \<longrightarrow> (\<exists>p rc e. ev = ChildExited p rc e \<and> p \<in> fst ` set (watches s))))"
proof (cases ev)
  case (TexChanged buffer e)
  with assms show ?thesis
    by (auto simp: handleTexChanged_def setCurrentTex_def triggerImageUpdate_eq setUpdating_eq
          showErrorToUser_def single_flight_def split: if_splits option.splits)
next
  case (ChildExited p rc e)
  show ?thesis
  proof (cases "find (\<lambda>w. fst w = p) (watches s)")
    case None
    with assms ChildExited show ?thesis by simp
  next
    case (Some w)
    from find_watch [OF assms(1) Some] have w: "watches s = [w]" and u: "isUpdating s" by simp_all
    from Some have p: "fst w = p" by (auto simp: find_Some_iff)
    from assms(2) ChildExited Some
    have c: "onPdfRenderComplete rc (snd w) e (s\<lparr>watches := remove1 w (watches s)\<rparr>) = Inr s'"
      by simp
    have "isUpdating (s\<lparr>watches := remove1 w (watches s)\<rparr>)"
      "watches (s\<lparr>watches := remove1 w (watches s)\<rparr>) = []"
      by (simp_all add: w u)
    from completion_children [OF this c] ChildExited p show ?thesis
      by (auto simp: w split: if_splits)
  qed
next
  case (ScratchPdfChanged f)
  with assms show ?thesis by auto
qed

lemma convert_page:
  "convertDocumentToImage ((W, Hp) # rest) s =
     Some \<lparr>img_x = posx s, img_y = posy s, img_text = currentTex s,
           img_width = (if truthy (imgheight s)
                        then (if is_zero (ddiv W Hp)
                              then (if is_zero (imgwidth s) then Finite False 10 else imgwidth s)
                              else dmul (imgheight s) (ddiv W Hp))
                        else W),
           img_height = (if truthy (imgheight s) then imgheight s else Hp),
           img_binaryData = []\<rparr>"
  by (simp add: convertDocumentToImage_def new_TexImage_def Let_def)

lemma ddiv_by_zero: "is_zero Hp \<Longrightarrow> \<not> is_zero (ddiv W Hp)"
  by (cases W; cases Hp) simp_all

lemma after_setUpdating_False:
  assumes "(if stale then triggerImageUpdate True e (setUpdating False s4)
            else Inr (setUpdating False s4)) = Inr s'"
  shows "isValidTex s' = isValidTex s4 \<and> okSensitive s' = isValidTex s4
    \<and> errorLabel s' = (if isValidTex s4 then [] else ''The formula is empty when rendered or invalid.'')
    \<and> pdfFile s' = pdfFile s4 \<and> temporaryRender s' = temporaryRender s4
    \<and> dlgTempRender s' = dlgTempRender s4 \<and> calls s' = calls s4
    \<and> messages s' = messages s4 @
         (if \<not> stale then []
          else if \<not> write_ok e then [CouldNotSaveTexFile]
          else if spawn_pid e = None then [CouldNotStartPdflatex] else [])
    \<and> (\<not> stale \<longrightarrow> \<not> isUpdating s' \<and> watches s' = watches s4 \<and> children s' = children s4)"
proof (cases stale)
  case False
  with assms have "s' = setUpdating False s4" by simp
  with False show ?thesis by (simp add: setUpdating_eq)
next
  case True
  with assms have t: "triggerImageUpdate True e (setUpdating False s4) = Inr s'" by simp
  show ?thesis
  proof (cases "write_ok e")
    case False
    with t have "s' = showErrorToUser CouldNotSaveTexFile (setUpdating False s4)"
      by (simp add: triggerImageUpdate_eq setUpdating_eq)
    with False True show ?thesis by (simp add: setUpdating_eq showErrorToUser_def)
  next
    case w: True
    show ?thesis
    proof (cases "spawn_pid e")
      case None
      with t w have "s' = setUpdating False (showErrorToUser CouldNotStartPdflatex
                (setUpdating True (setUpdating False s4\<lparr>texFile := Some (LATEX_TEMPLATE_1 @ currentTex (setUpdating False s4) @ LATEX_TEMPLATE_2)\<rparr>)
                 \<lparr>lastPreviewedTex := currentTex (setUpdating False s4)\<rparr>))"
        by (simp add: triggerImageUpdate_eq setUpdating_eq)
      with None w True show ?thesis by (simp add: setUpdating_eq showErrorToUser_def)
    next
      case (Some q)
      with t w have "s' = setUpdating True (setUpdating False s4\<lparr>texFile := Some (LATEX_TEMPLATE_1 @ currentTex (setUpdating False s4) @ LATEX_TEMPLATE_2)\<rparr>)
                 \<lparr>lastPreviewedTex := currentTex (setUpdating False s4),
                  children := children (setUpdating False s4) @ [(q, LATEX_TEMPLATE_1 @ currentTex (setUpdating False s4) @ LATEX_TEMPLATE_2)],
                  watches := watches (setUpdating False s4) @ [(q, True)]\<rparr>"
        by (simp add: triggerImageUpdate_eq setUpdating_eq)
      with Some w True show ?thesis by (simp add: setUpdating_eq)
    qed
  qed
qed

lemma after_setUpdating_False_returns:
  "\<exists>s'. (if stale then triggerImageUpdate True e (setUpdating False s4)
          else Inr (setUpdating False s4)) = Inr s'"
  by (simp add: triggerImageUpdate_eq setUpdating_eq split: option.splits)

lemma step_invalid_blocks:
  assumes "invalid_blocks_commit s" "step ev s = Inr s'"
  shows "invalid_blocks_commit s'"
proof (cases ev)
  case (TexChanged buffer e)
  with assms show ?thesis
    by (auto simp: handleTexChanged_def setCurrentTex_def triggerImageUpdate_eq setUpdating_eq
          showErrorToUser_def invalid_blocks_commit_def split: if_splits option.splits)
next
  case (ChildExited p rc e)
  show ?thesis
  proof (cases "find (\<lambda>w. fst w = p) (watches s)")
    case None
    with assms ChildExited show ?thesis by simp
  next
    case (Some w)
    from assms(2) ChildExited Some
    have c: "onPdfRenderComplete rc (snd w) e (s\<lparr>watches := remove1 w (watches s)\<rparr>) = Inr s'"
      by simp
    then obtain s4 where
      "(if lastPreviewedTex s \<noteq> currentTex s
               then triggerImageUpdate True e (setUpdating False s4)
               else Inr (setUpdating False s4)) = Inr s'"
      by (auto simp: onPdfRenderComplete_body split: sum.splits if_splits)
    from after_setUpdating_False [OF this] show ?thesis
      by (simp add: invalid_blocks_commit_def)
  qed
next
  case (ScratchPdfChanged f)
  with assms show ?thesis by (auto simp: invalid_blocks_commit_def)
qed

lemma run_events_invalid_blocks:
  "invalid_blocks_commit s \<Longrightarrow> run_events evs s = Inr s' \<Longrightarrow> invalid_blocks_commit s'"
proof (induction evs arbitrary: s)
  case Nil
  then show ?case by simp
next
  case (Cons ev evs)
  then show ?case
    by (auto split: sum.splits dest: step_invalid_blocks)
qed

lemma error_completion:
  assumes "isUpdating s" "g_spawn_check_exit_status rc = Some err"
  shows "onPdfRenderComplete rc ip e s =
     (if lastPreviewedTex s \<noteq> currentTex s
      then triggerImageUpdate True e (setUpdating False
             (s\<lparr>isValidTex := False, pdfFile := None,
                messages := (if g_error_matches_exit err 1 then messages s
                             else messages s @ [PdflatexEncounteredError err])\<rparr>))
      else Inr (setUpdating False
             (s\<lparr>isValidTex := False, pdfFile := None,
                messages := (if g_error_matches_exit err 1 then messages s
                             else messages s @ [PdflatexEncounteredError err])\<rparr>)))"
  by (simp add: onPdfRenderComplete_body completion_body_error [OF assms(2)] assms(1))

lemma preview_body:
  assumes "pdfFile s = Some (Readable bytes (PopplerDocument ((W, Hp) # rest)))"
  shows "completion_body (Exited 0) True s =
           Inr (s\<lparr>isValidTex := True,
                 temporaryRender :=
                   Some (the (convertDocumentToImage ((W, Hp) # rest) s)\<lparr>img_binaryData := bytes\<rparr>),
                 dlgTempRender := Some (bytes, length (currentTex s))\<rparr>)"
  using assms
  by (simp add: completion_body_def loadRendered_def deletePreviousRender_def convert_page
      setImageInDialog_def Let_def)

lemma loadRendered_null:
  assumes "loader_returns_null (pdfFile s)"
  shows "\<exists>ms. loadRendered s = Inr (None, s\<lparr>messages := ms\<rparr>)"
proof -
  have "\<exists>s1. loadRendered s = Inr (None, s1)"
    using assms
    by (cases "pdfFile s" rule: loader_returns_null.cases) (simp_all add: loadRendered_def)
  then obtain s1 where l: "loadRendered s = Inr (None, s1)" by blast
  from loadRendered_frame [OF l] l show ?thesis by auto
qed

lemma preview_body_keeps_calls:
  assumes "completion_body rc True s = Inr s4"
  shows "calls s4 = calls s"
proof (cases "g_spawn_check_exit_status rc")
  case (Some err)
  with assms show ?thesis by (auto simp: completion_body_error [OF Some])
next
  case None
  with assms obtain img s2 where
    l: "loadRendered (deletePreviousRender (s\<lparr>isValidTex := True\<rparr>)) = Inr (img, s2)"
    and s4: "s4 = (case img of Some r \<Rightarrow> setImageInDialog r (s2\<lparr>temporaryRender := img\<rparr>)
                    | None \<Rightarrow> s2\<lparr>temporaryRender := img\<rparr>)"
    by (auto simp: completion_body_def Let_def split: sum.splits prod.splits)
  from loadRendered_frame [OF l] obtain ms where
    s2: "s2 = deletePreviousRender (s\<lparr>isValidTex := True\<rparr>)\<lparr>messages := ms\<rparr>" by blast
  show ?thesis
    by (simp add: s4 s2 deletePreviousRender_def setImageInDialog_def split: option.splits)
qed

lemma trigger_keeps_calls:
  assumes "triggerImageUpdate True e s = Inr s'" "list_all snd (watches s)"
  shows "calls s' = calls s \<and> list_all snd (watches s')"
  using assms
  by (auto simp: triggerImageUpdate_eq setUpdating_eq showErrorToUser_def
      split: if_splits option.splits)

lemma step_keeps_calls:
  assumes "list_all snd (watches s)" "step ev s = Inr s'"
  shows "calls s' = calls s \<and> list_all snd (watches s')"
proof (cases ev)
  case (TexChanged buffer e)
  with assms(2) have "triggerImageUpdate True e (s\<lparr>dlgTex := buffer, currentTex := buffer\<rparr>) = Inr s'"
    by (simp add: handleTexChanged_def setCurrentTex_def)
  from trigger_keeps_calls [OF this] assms(1) show ?thesis by simp
next
  case (ChildExited p rc e)
  show ?thesis
  proof (cases "find (\<lambda>w. fst w = p) (watches s)")
    case None
    with assms ChildExited show ?thesis by simp
  next
    case (Some w)
    from Some have "w \<in> set (watches s)" by (auto simp: find_Some_iff)
    with assms(1) have pw: "snd w" by (auto simp: list_all_iff)
    have rest: "list_all snd (remove1 w (watches s))"
      using assms(1) by (auto simp: list_all_iff dest: notin_set_remove1)
    let ?s0 = "s\<lparr>watches := remove1 w (watches s)\<rparr>"
    from assms(2) ChildExited Some pw
    have c: "onPdfRenderComplete rc True e ?s0 = Inr s'" by simp
    then obtain s4 where b: "completion_body rc True ?s0 = Inr s4"
      and s': "(if lastPreviewedTex ?s0 \<noteq> currentTex ?s0
               then triggerImageUpdate True e (setUpdating False s4)
               else Inr (setUpdating False s4)) = Inr s'"
      by (auto simp: onPdfRenderComplete_body split: sum.splits if_splits)
    from completion_body_frame [OF b] obtain v a b r dr f ms cs where
      s4: "s4 = ?s0\<lparr>isValidTex := v, selectedTexImage := a, selectedText := b,
            temporaryRender := r, dlgTempRender := dr, pdfFile := f, messages := ms, calls := cs\<rparr>"
      by blast
    have w4: "list_all snd (watches (setUpdating False s4))"
      using rest by (simp add: s4 setUpdating_eq)
    have c4: "calls (setUpdating False s4) = calls s"
      using preview_body_keeps_calls [OF b] by (simp add: setUpdating_eq)
    show ?thesis
    proof (cases "lastPreviewedTex ?s0 \<noteq> currentTex ?s0")
      case True
      with s' have "triggerImageUpdate True e (setUpdating False s4) = Inr s'" by simp
      from trigger_keeps_calls [OF this w4] c4 show ?thesis by simp
    next
      case False
      with s' have "s' = setUpdating False s4" by simp
      with w4 c4 show ?thesis by simp
    qed
  qed
next
  case (ScratchPdfChanged f)
  with assms show ?thesis by auto
qed

lemma run_events_keeps_calls:
  "list_all snd (watches s) \<Longrightarrow> run_events evs s = Inr s' \<Longrightarrow> calls s' = calls s"
proof (induction evs arbitrary: s)
  case Nil
  then show ?case by simp
next
  case (Cons ev evs)
  from Cons.prems(2) obtain s1 where st: "step ev s = Inr s1" and r: "run_events evs s1 = Inr s'"
    by (auto split: sum.splits)
  from step_keeps_calls [OF Cons.prems(1) st] Cons.IH [OF _ r] show ?case by simp
qed

lemma findSelectedTexElement_calls:
  "\<exists>cs. calls (findSelectedTexElement c s) = calls s @ cs \<and> set cs \<subseteq> bookkeeping_calls"
proof -
  have "calls (findSelectedTexElement c s) = calls s @ [DocLock, DocUnlock] \<or>
        calls (findSelectedTexElement c s) = calls s @ [DocLock, DocUnlock, ClearSelectionEndText]"
    by (simp add: findSelectedTexElement_def Let_def split: option.splits)
  then show ?thesis by (auto simp: bookkeeping_calls_def)
qed

lemma findSelectedTexElement_watches:
  "watches (findSelectedTexElement c s) = watches s"
  by (simp add: findSelectedTexElement_def Let_def split: option.splits)

lemma showTexEditDialog_keeps_calls:
  assumes "showTexEditDialog d s = Inr s'" "list_all snd (watches s)"
  shows "calls s' = calls s"
proof -
  let ?s2 = "case temporaryRender (s\<lparr>dlgTex := initalTex s\<rparr>) of
                  Some r \<Rightarrow> s\<lparr>dlgTex := initalTex s,
                     dlgTempRender := Some (img_binaryData r, length (initalTex (s\<lparr>dlgTex := initalTex s\<rparr>)))\<rparr>
                | None \<Rightarrow> s\<lparr>dlgTex := initalTex s\<rparr>"
  from assms(1) obtain s3 where r: "run_events (dlg_events d) ?s2 = Inr s3"
    and s': "s' = deletePreviousRender s3\<lparr>currentTex := dlg_getTex d @ '' ''\<rparr>"
    by (auto simp: showTexEditDialog_def Let_def split: sum.splits)
  have w: "list_all snd (watches ?s2)" "calls ?s2 = calls s"
    using assms(2) by (simp_all split: option.splits)
  from run_events_keeps_calls [OF w(1) r] w(2) show ?thesis
    by (simp add: s' deletePreviousRender_def)
qed

lemma insertTexImage_mutates:
  assumes "insertTexImage s = Inr s'"
  shows "currentTex s' = currentTex s \<and> initalTex s' = initalTex s"
proof -
  from insertTexImage_frame [OF assms] obtain a b ms cs where
    "s' = s\<lparr>selectedTexImage := a, selectedText := b, messages := ms, calls := cs\<rparr>" by blast
  then show ?thesis by simp
qed

lemmas session_defs = run_def findTexExecutable_def findSelectedTexElement_def
  showTexEditDialog_def trim_def isspace_def untouched_default_session_def
  untouched_formula_session_def zero_page_session_def empty_page_def
  page_with_formula_def page_with_text_def insertTexImage_def deleteOldImage_def

text \<open>When the loader returns NULL, \<^verbatim>\<open>insertTexImage\<close> passes NULL on:
  to the layer, the view, the undo handler and the selection.\<close>

lemma failed_load_commits_null:
  assumes "loader_returns_null (pdfFile s)" "layer s = Some l" "view s = Some v"
  shows "\<exists>s'. insertTexImage s = Inr s'
     \<and> calls s' = calls s @ deleted_selection s @
          [DocLock, AddElement l None, RerenderElement v None, DocUnlock,
           AddUndoAction (page s) l None, SetSelection None]"
proof -
  from loadRendered_null [OF assms(1)] obtain ms where
    l: "loadRendered s = Inr (None, s\<lparr>messages := ms\<rparr>)" by blast
  show ?thesis
    by (simp add: insertTexImage_def l deleteOldImage_def deleted_selection_def assms(2,3)
        split: option.splits)
qed

text \<open>When the guard of \<^verbatim>\<open>run\<close> holds at the end of the session, the
  session has made no call that changes the document.\<close>

lemma guard_skips_commit:
  assumes "run r s = Inr s'" and "list_all snd (watches s)"
    and "currentTex s' = initalTex s' \<or> trim (currentTex s') = []"
  shows "\<exists>cs. calls s' = calls s @ cs \<and> set cs \<subseteq> bookkeeping_calls"
proof (cases "pdflatex_in_path r")
  case None
  with assms(1) have "calls s' = calls s @ []"
    by (auto simp: run_def findTexExecutable_def showErrorToUser_def)
  then show ?thesis by (intro exI [of _ "[]"]) simp
next
  case (Some path)
  let ?s1 = "findSelectedTexElement (selection r) (s\<lparr>binTex := path\<rparr>)"
  from assms(1) Some obtain s2 where d: "showTexEditDialog (dialog r) ?s1 = Inr s2"
    and e: "(if trim (currentTex s2) = [] \<or> initalTex s2 = currentTex s2
               then Inr s2 else insertTexImage s2) = Inr s'"
    by (auto simp: run_def findTexExecutable_def Let_def split: sum.splits)
  have "s' = s2"
  proof (rule ccontr)
    assume n: "s' \<noteq> s2"
    with e have g: "\<not> (trim (currentTex s2) = [] \<or> initalTex s2 = currentTex s2)"
      and i: "insertTexImage s2 = Inr s'"
      by (auto split: if_splits)
    from insertTexImage_mutates [OF i] g assms(3) show False by auto
  qed
  moreover have "list_all snd (watches ?s1)"
    using assms(2) by (simp add: findSelectedTexElement_watches)
  from showTexEditDialog_keeps_calls [OF d this] have "calls s2 = calls ?s1" .
  moreover from findSelectedTexElement_calls [of "selection r" "s\<lparr>binTex := path\<rparr>"]
  obtain cs where "calls ?s1 = calls s @ cs" "set cs \<subseteq> bookkeeping_calls" by auto
  ultimately show ?thesis by auto
qed

section \<open>The claims\<close>

text \<open>
  C1. Single-flight: from a single-flight state (a new controller is one), whatever events
  the main loop delivers, at most one render is outstanding, and
  \<open>isUpdating\<close> is true exactly while one is; no assertion of the code fails;
  a change of the input that arrives while a render is in flight only records the text;
  and an event starts at most one child, which it can do while \<open>isUpdating\<close> holds
  only if it is the end of the watched child, whose callback clears the flag before it
  starts the next render. The statement holds for every list of events, hence at every
  moment of a session.
\<close>

theorem single_flight_invariant:
  assumes "single_flight s0" and "run_events evs s0 = Inr s"
  shows "length (watches s) \<le> 1 \<and> (isUpdating s \<longleftrightarrow> watches s \<noteq> [])
    \<and> (isUpdating s \<longrightarrow>
         step (TexChanged buffer e) s = Inr (s\<lparr>currentTex := buffer, dlgTex := buffer\<rparr>))
    \<and> step ev s \<noteq> Inl AssertionFailed
    \<and> (\<forall>s'. step ev s = Inr s' \<longrightarrow>
          children s' = children s \<or>
          ((\<exists>c. children s' = children s @ [c] \<and> watches s' = [(fst c, True)]) \<and>
           (isUpdating s \<longrightarrow> (\<exists>p rc e'. ev = ChildExited p rc e' \<and> p \<in> fst ` set (watches s)))))"
proof -
  have inv: "single_flight s" using assms by (rule run_events_flight)
  have a: "length (watches s) \<le> 1 \<and> (isUpdating s \<longleftrightarrow> watches s \<noteq> [])"
    using inv by (simp add: single_flight_def)
  have b: "isUpdating s \<longrightarrow>
         step (TexChanged buffer e) s = Inr (s\<lparr>currentTex := buffer, dlgTex := buffer\<rparr>)"
    by (simp add: handleTexChanged_def setCurrentTex_def triggerImageUpdate_eq)
  have c: "step ev s \<noteq> Inl AssertionFailed" using inv by (rule step_no_assert)
  from a b c step_children [OF inv] show ?thesis by blast
qed

theorem single_flight_invariant_witness:
  "single_flight new_LatexController \<and>
   (\<exists>s. run_events [TexChanged ''a'' (env_ok 1), TexChanged ''ab'' (env_ok 2)] new_LatexController = Inr s
      \<and> length (watches s) \<le> 1 \<and> isUpdating s \<and> map fst (children s) = [1]
      \<and> step (TexChanged ''abc'' (env_ok 3)) s = Inr (s\<lparr>currentTex := ''abc'', dlgTex := ''abc''\<rparr>))"
proof -
  have h: "single_flight new_LatexController"
    by (simp add: single_flight_def new_LatexController_def)
  obtain s where r: "run_events [TexChanged ''a'' (env_ok 1), TexChanged ''ab'' (env_ok 2)]
       new_LatexController = Inr s"
    and w: "watches s \<noteq> []" "map fst (children s) = [1]"
    by (simp add: eval_defs)
  from single_flight_invariant [OF h r, of "''abc''" "env_ok 3"] w
  have "length (watches s) \<le> 1" "isUpdating s"
    "step (TexChanged ''abc'' (env_ok 3)) s = Inr (s\<lparr>currentTex := ''abc'', dlgTex := ''abc''\<rparr>)"
    by simp_all
  with h r w(2) show ?thesis by (intro conjI exI [of _ s]) 
qed




text \<open>
  C4. Commit gating. \<^verbatim>\<open>setUpdating\<close> first makes the OK button
  insensitive when a render starts, as its comment says ("Disable LatexDialog OK button
  while updating"), and then sets the sensitivity to \<open>isValidTex\<close> whatever
  the first call did. After one successful preview, the next change of the input starts a
  render and leaves the button sensitive while that render is in flight: the session
  below ends with \<open>isUpdating\<close>, one child outstanding and a sensitive button.
\<close>

theorem ok_button_sensitive_while_updating:
  "map_sum id isUpdating
     (run_events [TexChanged ''a'' (env_ok 1), ScratchPdfChanged (Some one_page_pdf),
                  ChildExited 1 (Exited 0) (env_ok 2), TexChanged ''ab'' (env_ok 2)]
        new_LatexController) = Inr True
   \<and> map_sum id watches
     (run_events [TexChanged ''a'' (env_ok 1), ScratchPdfChanged (Some one_page_pdf),
                  ChildExited 1 (Exited 0) (env_ok 2), TexChanged ''ab'' (env_ok 2)]
        new_LatexController) = Inr [(2, True)]
   \<and> map_sum id okSensitive
     (run_events [TexChanged ''a'' (env_ok 1), ScratchPdfChanged (Some one_page_pdf),
                  ChildExited 1 (Exited 0) (env_ok 2), TexChanged ''ab'' (env_ok 2)]
        new_LatexController) = Inr True
   \<and> okSensitive (setUpdating True (new_LatexController\<lparr>isValidTex := True\<rparr>))"
  by (simp add: eval_defs)

text \<open>
  C7. Asset dimensions. The claim fails for a first page of width 0 and height 5, with
  a prior height 3 and a prior width 7: the width is the prior width 7, not
  \<open>3 * (0 / 5) = 0\<close>. The code falls back when the ratio
  \<^verbatim>\<open>pageWidth / pageHeight\<close> compares equal to zero; for a page of
  height zero the ratio is an infinity or NaN and there is no fallback (width 20,
  height 0: the width is \<open>3 * inf\<close>, not the prior width).
\<close>

theorem asset_width_counterexample:
  "map_option img_width (convertDocumentToImage [(Finite False 0, Finite False 5)]
       (new_LatexController\<lparr>imgwidth := Finite False 7, imgheight := Finite False 3\<rparr>))
     = Some (Finite False 7)
   \<and> dmul (Finite False 3) (ddiv (Finite False 0) (Finite False 5)) = Finite False 0
   \<and> map_option img_width (convertDocumentToImage [(Finite False 20, Finite False 0)]
       (new_LatexController\<lparr>imgwidth := Finite False 7, imgheight := Finite False 3\<rparr>))
     = Some (Infinite False)"
  by (simp add: convert_page new_LatexController_def truthy_def rounded_def round_double_def)

text \<open>
  C7, amended. For every parsed document with at least one page, of first-page width
  \<open>W\<close> and height \<open>Hp\<close>: if the prior height \<open>H\<close> is not zero, the
  asset's height is \<open>H\<close>, and its width is the double product of \<open>H\<close> and
  the double quotient \<open>W / Hp\<close> when that quotient does not compare equal to
  zero; when it does (a page of width zero, an infinite height, or a quotient so small that
  it underflows to zero) the width is the prior width, or 10 if the prior width is zero. A
  page height of zero does not make the quotient zero. If the prior height is zero the
  asset takes the page's own width and height.
\<close>

theorem asset_dimensions:
  "\<exists>img. convertDocumentToImage ((W, Hp) # rest) s = Some img
     \<and> (truthy (imgheight s) \<longrightarrow>
          img_height img = imgheight s
          \<and> (\<not> is_zero (ddiv W Hp) \<longrightarrow> img_width img = dmul (imgheight s) (ddiv W Hp))
          \<and> (is_zero (ddiv W Hp) \<longrightarrow>
               img_width img = (if is_zero (imgwidth s) then Finite False 10 else imgwidth s)))
     \<and> (\<not> truthy (imgheight s) \<longrightarrow> img_width img = W \<and> img_height img = Hp)
     \<and> (is_zero Hp \<longrightarrow> \<not> is_zero (ddiv W Hp))"
  by (simp add: convert_page ddiv_by_zero)

theorem asset_dimensions_witness:
  "(\<exists>img. convertDocumentToImage [(Finite False 1, Finite False 10)]
            (new_LatexController\<lparr>imgwidth := Finite False 7, imgheight := Finite False 3\<rparr>) = Some img
      \<and> img_height img = Finite False 3
      \<and> img_width img = Finite False (1351079888211149 / 4503599627370496))
   \<and> (\<exists>img. convertDocumentToImage [(Finite False (1 / 2 ^ 600), Finite False (2 ^ 600))]
            (new_LatexController\<lparr>imgwidth := Finite False 7, imgheight := Finite False 3\<rparr>) = Some img
      \<and> img_height img = Finite False 3 \<and> img_width img = Finite False 7)
   \<and> (\<exists>img. convertDocumentToImage [(Finite False 20, Finite False 10)] new_LatexController = Some img
      \<and> img_height img = Finite False 10 \<and> img_width img = Finite False 20)"
proof -
  let ?s = "new_LatexController\<lparr>imgwidth := Finite False 7, imgheight := Finite False 3\<rparr>"
  have a: "truthy (imgheight ?s)" "imgwidth ?s = Finite False 7" "imgheight ?s = Finite False 3"
    "\<not> truthy (imgheight new_LatexController)"
    by (simp_all add: truthy_def new_LatexController_def)
  have b: "\<not> is_zero (ddiv (Finite False 1) (Finite False 10))"
    "is_zero (ddiv (Finite False (1 / 2 ^ 600)) (Finite False (2 ^ 600)))"
    by (simp_all only: double_tenth double_underflow is_zero.simps)
  note c = double_three_tenths
  from asset_dimensions [of "Finite False 1" "Finite False 10" "[]" ?s] a b(1) c
  have 1: "\<exists>img. convertDocumentToImage [(Finite False 1, Finite False 10)] ?s = Some img
      \<and> img_height img = Finite False 3
      \<and> img_width img = Finite False (1351079888211149 / 4503599627370496)"
    by auto
  from asset_dimensions [of "Finite False (1 / 2 ^ 600)" "Finite False (2 ^ 600)" "[]" ?s] a b(2)
  have 2: "\<exists>img. convertDocumentToImage [(Finite False (1 / 2 ^ 600), Finite False (2 ^ 600))] ?s = Some img
      \<and> img_height img = Finite False 3 \<and> img_width img = Finite False 7"
    by (auto simp del: power_numeral)
  from asset_dimensions [of "Finite False 20" "Finite False 10" "[]" new_LatexController] a
  have 3: "\<exists>img. convertDocumentToImage [(Finite False 20, Finite False 10)] new_LatexController = Some img
      \<and> img_height img = Finite False 10 \<and> img_width img = Finite False 20"
    by auto
  from 1 2 3 show ?thesis by (intro conjI)
qed

text \<open>
  C5. Tool failure. The claim fails where it says the formula is not marked invalid: the
  error branch of \<^verbatim>\<open>onPdfRenderComplete\<close> sets
  \<open>isValidTex\<close> to false for every error, before it looks at the exit code. In
  the session below a preview has succeeded (\<open>isValidTex\<close> is true while the
  second render is in flight), the second child exits with status 2, and the callback
  leaves \<open>isValidTex\<close> false and the OK button insensitive.
\<close>

theorem tool_failure_marks_invalid_counterexample:
  "map_sum id isValidTex
     (run_events [TexChanged ''a'' (env_ok 1), ScratchPdfChanged (Some one_page_pdf),
                  ChildExited 1 (Exited 0) (env_ok 2), TexChanged ''ab'' (env_ok 2)]
        new_LatexController) = Inr True
   \<and> map_sum id isValidTex
     (run_events [TexChanged ''a'' (env_ok 1), ScratchPdfChanged (Some one_page_pdf),
                  ChildExited 1 (Exited 0) (env_ok 2), TexChanged ''ab'' (env_ok 2),
                  ChildExited 2 (Exited 2) (env_ok 3)]
        new_LatexController) = Inr False
   \<and> map_sum id okSensitive
     (run_events [TexChanged ''a'' (env_ok 1), ScratchPdfChanged (Some one_page_pdf),
                  ChildExited 1 (Exited 0) (env_ok 2), TexChanged ''ab'' (env_ok 2),
                  ChildExited 2 (Exited 2) (env_ok 3)]
        new_LatexController) = Inr False
   \<and> map_sum id messages
     (run_events [TexChanged ''a'' (env_ok 1), ScratchPdfChanged (Some one_page_pdf),
                  ChildExited 1 (Exited 0) (env_ok 2), TexChanged ''ab'' (env_ok 2),
                  ChildExited 2 (Exited 2) (env_ok 3)]
        new_LatexController) = Inr [PdflatexEncounteredError (G_SPAWN_EXIT_ERROR 2)]"
  by (simp add: eval_defs)

text \<open>
  C5, amended. For every completion of a render in flight whose wait status is neither
  exit code 0 nor exit code 1 (another exit code, or a signal): the callback returns; the
  failure is shown to the user as an error of pdflatex, with the error; the scratch PDF
  does not exist afterwards; the formula is marked invalid and the OK button insensitive;
  and if the input did not change during the render the session is idle again
  (\<open>isUpdating\<close> false, no watch added). The only other messages are those of
  a follow-up render that cannot be started.
\<close>

theorem tool_failure_completion:
  assumes "isUpdating s" "returnCode \<noteq> Exited 0" "returnCode \<noteq> Exited 1"
  shows "\<exists>s' err. onPdfRenderComplete returnCode isPreview e s = Inr s'
     \<and> g_spawn_check_exit_status returnCode = Some err
     \<and> messages s' = messages s @ [PdflatexEncounteredError err] @ followup_messages e s
     \<and> pdfFile s' = None
     \<and> \<not> isValidTex s' \<and> \<not> okSensitive s'
     \<and> (lastPreviewedTex s = currentTex s \<longrightarrow> \<not> isUpdating s' \<and> watches s' = watches s)"
proof -
  from assms(2,3) obtain err where g: "g_spawn_check_exit_status returnCode = Some err"
    and n: "\<not> g_error_matches_exit err 1"
    by (cases returnCode) (auto split: if_splits)
  let ?s4 = "s\<lparr>isValidTex := False, pdfFile := None,
                messages := messages s @ [PdflatexEncounteredError err]\<rparr>"
  obtain s' where r: "(if lastPreviewedTex s \<noteq> currentTex s
            then triggerImageUpdate True e (setUpdating False ?s4)
            else Inr (setUpdating False ?s4)) = Inr s'"
    using after_setUpdating_False_returns by blast
  have c: "onPdfRenderComplete returnCode isPreview e s = Inr s'"
    using r n unfolding error_completion [OF assms(1) g] by (simp split: if_splits)
  from after_setUpdating_False [OF r]
  have f: "\<not> isValidTex s'" "\<not> okSensitive s'" "pdfFile s' = None"
     "messages s' = messages s @ [PdflatexEncounteredError err] @ followup_messages e s"
     "lastPreviewedTex s = currentTex s \<longrightarrow> \<not> isUpdating s' \<and> watches s' = watches s"
    by (simp_all add: followup_messages_def)
  with c g show ?thesis by (intro exI [of _ s'] exI [of _ err] conjI)
qed

theorem tool_failure_completion_witness:
  "\<exists>s s'. isUpdating s \<and> Exited 2 \<noteq> Exited 0 \<and> Exited 2 \<noteq> Exited 1
     \<and> run_events [TexChanged ''a'' (env_ok 1)] new_LatexController = Inr s
     \<and> onPdfRenderComplete (Exited 2) True (env_ok 2) s = Inr s'
     \<and> messages s' = [PdflatexEncounteredError (G_SPAWN_EXIT_ERROR 2)]
     \<and> pdfFile s' = None \<and> \<not> isValidTex s' \<and> \<not> okSensitive s' \<and> \<not> isUpdating s'"
proof -
  obtain s where r: "run_events [TexChanged ''a'' (env_ok 1)] new_LatexController = Inr s"
    and u: "isUpdating s" and m: "messages s = []" "lastPreviewedTex s = currentTex s"
    by (simp add: eval_defs)
  have ne: "Exited 2 \<noteq> Exited 0" "Exited 2 \<noteq> Exited 1" by simp_all
  from tool_failure_completion [OF u ne, of True "env_ok 2"] m
  obtain s' where "onPdfRenderComplete (Exited 2) True (env_ok 2) s = Inr s'"
     "messages s' = [PdflatexEncounteredError (G_SPAWN_EXIT_ERROR 2)]"
     "pdfFile s' = None" "\<not> isValidTex s'" "\<not> okSensitive s'" "\<not> isUpdating s'"
    by (auto simp: followup_messages_def)
  with r u ne show ?thesis by (intro exI [of _ s] exI [of _ s'] conjI)
qed

text \<open>
  C6. Render error. For every completion of a render in flight with exit code 1: the
  callback returns; the formula is marked invalid, the OK button is insensitive and the
  label shows the inline message; the scratch PDF does not exist afterwards; the callback
  shows no error of pdflatex (the messages are those before, followed only by the
  message of a follow-up render that cannot be started, and by nothing if the input did
  not change during the render); and in every later state of the session in which the
  formula is still invalid, the OK button is insensitive.
\<close>

theorem render_error_completion:
  assumes "isUpdating s"
  shows "\<exists>s'. onPdfRenderComplete (Exited 1) isPreview e s = Inr s'
     \<and> \<not> isValidTex s' \<and> \<not> okSensitive s'
     \<and> errorLabel s' = ''The formula is empty when rendered or invalid.''
     \<and> pdfFile s' = None
     \<and> messages s' = messages s @ followup_messages e s
     \<and> (lastPreviewedTex s = currentTex s \<longrightarrow> messages s' = messages s \<and> \<not> isUpdating s')
     \<and> (\<forall>evs s''. run_events evs s' = Inr s'' \<and> \<not> isValidTex s'' \<longrightarrow> \<not> okSensitive s'')"
proof -
  let ?s4 = "s\<lparr>isValidTex := False, pdfFile := None\<rparr>"
  have g: "g_spawn_check_exit_status (Exited 1) = Some (G_SPAWN_EXIT_ERROR 1)" by simp
  obtain s' where r: "(if lastPreviewedTex s \<noteq> currentTex s
            then triggerImageUpdate True e (setUpdating False ?s4)
            else Inr (setUpdating False ?s4)) = Inr s'"
    using after_setUpdating_False_returns by blast
  have c: "onPdfRenderComplete (Exited 1) isPreview e s = Inr s'"
    using r unfolding error_completion [OF assms g] by (simp split: if_splits)
  from after_setUpdating_False [OF r]
  have f: "\<not> isValidTex s'" "\<not> okSensitive s'"
     "errorLabel s' = ''The formula is empty when rendered or invalid.''"
     "pdfFile s' = None" "messages s' = messages s @ followup_messages e s"
     "lastPreviewedTex s = currentTex s \<longrightarrow> messages s' = messages s \<and> \<not> isUpdating s'"
    by (simp_all add: followup_messages_def)
  have "invalid_blocks_commit s'" using f by (simp add: invalid_blocks_commit_def)
  then have "\<forall>evs s''. run_events evs s' = Inr s'' \<and> \<not> isValidTex s'' \<longrightarrow> \<not> okSensitive s''"
    using run_events_invalid_blocks by (auto simp: invalid_blocks_commit_def)
  with c f show ?thesis by (intro exI [of _ s'] conjI)
qed

theorem render_error_completion_witness:
  "\<exists>s s'. isUpdating s
     \<and> run_events [TexChanged ''a'' (env_ok 1), ScratchPdfChanged (Some one_page_pdf)]
           new_LatexController = Inr s
     \<and> onPdfRenderComplete (Exited 1) True (env_ok 2) s = Inr s'
     \<and> \<not> isValidTex s' \<and> \<not> okSensitive s' \<and> pdfFile s' = None \<and> messages s' = []
     \<and> \<not> isUpdating s'"
proof -
  obtain s where r: "run_events [TexChanged ''a'' (env_ok 1), ScratchPdfChanged (Some one_page_pdf)]
           new_LatexController = Inr s"
    and u: "isUpdating s" and m: "messages s = []" "lastPreviewedTex s = currentTex s"
    by (simp add: eval_defs)
  from render_error_completion [OF u, of True "env_ok 2"] m
  obtain s' where "onPdfRenderComplete (Exited 1) True (env_ok 2) s = Inr s'"
     "\<not> isValidTex s'" "\<not> okSensitive s'" "pdfFile s' = None" "messages s' = []" "\<not> isUpdating s'"
    by (auto simp: followup_messages_def)
  with r u show ?thesis by (intro exI [of _ s] exI [of _ s'] conjI)
qed

text \<open>
  C8. Source text of the preview asset. The claim fails when the input changes while the
  render is in flight: \<^verbatim>\<open>convertDocumentToImage\<close> stamps the asset
  with \<open>currentTex\<close> as it is when the callback runs. Below, the child is
  started on the file made from \<open>a\<close>, the buffer changes to \<open>b\<close>, the
  child writes a valid PDF and exits with status 0: the preview asset has the source text
  \<open>b\<close>, and the formula counts as valid.
\<close>

theorem preview_asset_source_text_counterexample:
  "map_sum id children (run_events [TexChanged ''a'' (env_ok 1)] new_LatexController)
     = Inr [(1, tex_file_for ''a'')]
   \<and> map_sum id (map_option img_text \<circ> temporaryRender)
       (run_events [TexChanged ''a'' (env_ok 1), TexChanged ''b'' (env_ok 9),
                    ScratchPdfChanged (Some one_page_pdf), ChildExited 1 (Exited 0) (env_ok 2)]
          new_LatexController) = Inr (Some ''b'')
   \<and> map_sum id isValidTex
       (run_events [TexChanged ''a'' (env_ok 1), TexChanged ''b'' (env_ok 9),
                    ScratchPdfChanged (Some one_page_pdf), ChildExited 1 (Exited 0) (env_ok 2)]
          new_LatexController) = Inr True"
  by (simp add: eval_defs tex_file_for_def)

text \<open>
  C8, amended. A render is started for \<open>T\<close> from an idle session; while it is in
  flight the buffer may change and the child writes a PDF that loads and has at least one
  page; the child exits with status 0. Then the callback returns, the formula is valid, and
  the session holds a preview asset with the bytes of the PDF whose source text is the
  input current at completion; this is \<open>T\<close> when the input is \<open>T\<close>
  at completion, and then the session is idle with the OK button sensitive.
\<close>

theorem preview_asset_source_text:
  assumes idle: "\<not> isUpdating s0" "watches s0 = []"
    and started: "write_ok e1" "spawn_pid e1 = Some p"
    and mid: "list_all (\<lambda>ev. \<not> is_exit ev) mid"
    and pdf: "pdf_after (pdfFile s0) mid = Some (Readable bytes (PopplerDocument ((W, Hp) # rest)))"
  shows "\<exists>s' img. run_events (TexChanged T e1 # mid @ [ChildExited p (Exited 0) e2]) s0 = Inr s'
      \<and> isValidTex s' \<and> temporaryRender s' = Some img \<and> img_binaryData img = bytes
      \<and> dlgTempRender s' = Some (bytes, length (input_after T mid))
      \<and> img_text img = input_after T mid
      \<and> (input_after T mid = T \<longrightarrow> img_text img = T \<and> \<not> isUpdating s' \<and> okSensitive s')"
proof -
  define s1 where "s1 = setUpdating True (s0\<lparr>dlgTex := T, currentTex := T,
                 texFile := Some (LATEX_TEMPLATE_1 @ T @ LATEX_TEMPLATE_2)\<rparr>)
               \<lparr>lastPreviewedTex := T,
                children := children s0 @ [(p, LATEX_TEMPLATE_1 @ T @ LATEX_TEMPLATE_2)],
                watches := [(p, True)]\<rparr>"
  have st1: "step (TexChanged T e1) s0 = Inr s1"
    using idle started
    by (simp add: s1_def handleTexChanged_def setCurrentTex_def triggerImageUpdate_eq)
  have f1: "isUpdating s1" "currentTex s1 = T" "lastPreviewedTex s1 = T"
    "pdfFile s1 = pdfFile s0" "watches s1 = [(p, True)]"
    by (simp_all add: s1_def setUpdating_eq)
  define s2 where "s2 = s1\<lparr>currentTex := input_after (currentTex s1) mid,
                  dlgTex := input_after (dlgTex s1) mid, pdfFile := pdf_after (pdfFile s1) mid\<rparr>"
  have m: "run_events mid s1 = Inr s2"
    unfolding s2_def by (rule in_flight_events [OF f1(1) mid])
  define s3 where "s3 = s2\<lparr>watches := []\<rparr>"
  have f3: "isUpdating s3" "currentTex s3 = input_after T mid" "lastPreviewedTex s3 = T"
    "pdfFile s3 = Some (Readable bytes (PopplerDocument ((W, Hp) # rest)))"
    by (simp_all add: s3_def s2_def f1 pdf)
  define img where
    "img = the (convertDocumentToImage ((W, Hp) # rest) s3)\<lparr>img_binaryData := bytes\<rparr>"
  have b: "completion_body (Exited 0) True s3 =
           Inr (s3\<lparr>isValidTex := True, temporaryRender := Some img,
                 dlgTempRender := Some (bytes, length (currentTex s3))\<rparr>)"
    unfolding img_def by (rule preview_body [OF f3(4)])
  have i: "img_text img = currentTex s3" "img_binaryData img = bytes"
    by (simp_all add: img_def convert_page)
  let ?s4 = "s3\<lparr>isValidTex := True, temporaryRender := Some img,
                 dlgTempRender := Some (bytes, length (currentTex s3))\<rparr>"
  obtain s' where r: "(if lastPreviewedTex s3 \<noteq> currentTex s3
            then triggerImageUpdate True e2 (setUpdating False ?s4)
            else Inr (setUpdating False ?s4)) = Inr s'"
    using after_setUpdating_False_returns by blast
  have c: "onPdfRenderComplete (Exited 0) True e2 s3 = Inr s'"
    using r f3(1) unfolding onPdfRenderComplete_body b by (simp split: if_splits)
  have run: "run_events (TexChanged T e1 # mid @ [ChildExited p (Exited 0) e2]) s0 = Inr s'"
    using st1 m c by (simp add: run_events_append s3_def s2_def f1)
  from after_setUpdating_False [OF r]
  have f: "isValidTex s'" "temporaryRender s' = Some img"
     "dlgTempRender s' = Some (bytes, length (input_after T mid))"
     "input_after T mid = T \<longrightarrow> \<not> isUpdating s' \<and> okSensitive s'"
    by (auto simp: f3)
  from run f i f3(2) show ?thesis
    by (intro exI [of _ s'] exI [of _ img] conjI) simp_all
qed

theorem preview_asset_source_text_witness:
  "\<not> isUpdating new_LatexController \<and> watches new_LatexController = []
   \<and> write_ok (env_ok 1) \<and> spawn_pid (env_ok 1) = Some 1
   \<and> list_all (\<lambda>ev. \<not> is_exit ev) [ScratchPdfChanged (Some one_page_pdf)]
   \<and> pdf_after (pdfFile new_LatexController) [ScratchPdfChanged (Some one_page_pdf)]
        = Some (Readable ''%PDF'' (PopplerDocument [(Finite False 20, Finite False 10)]))
   \<and> (\<exists>s' img. run_events (TexChanged ''x^2'' (env_ok 1) # [ScratchPdfChanged (Some one_page_pdf)] @
                   [ChildExited 1 (Exited 0) (env_ok 2)]) new_LatexController = Inr s'
        \<and> temporaryRender s' = Some img \<and> img_text img = ''x^2'' \<and> isValidTex s'
        \<and> \<not> isUpdating s' \<and> okSensitive s')"
proof -
  have h: "\<not> isUpdating new_LatexController" "watches new_LatexController = []"
    "write_ok (env_ok 1)" "spawn_pid (env_ok 1) = Some 1"
    "list_all (\<lambda>ev. \<not> is_exit ev) [ScratchPdfChanged (Some one_page_pdf)]"
    "pdf_after (pdfFile new_LatexController) [ScratchPdfChanged (Some one_page_pdf)]
        = Some (Readable ''%PDF'' (PopplerDocument ((Finite False 20, Finite False 10) # [])))"
    by (simp_all add: new_LatexController_def env_ok_def one_page_pdf_def)
  from preview_asset_source_text [OF h, of "''x^2''" "env_ok 2"]
  obtain s' img where "run_events (TexChanged ''x^2'' (env_ok 1) # [ScratchPdfChanged (Some one_page_pdf)] @
                   [ChildExited 1 (Exited 0) (env_ok 2)]) new_LatexController = Inr s'"
     "temporaryRender s' = Some img" "img_text img = ''x^2''" "isValidTex s'"
     "\<not> isUpdating s'" "okSensitive s'"
    by auto
  with h show ?thesis by (intro conjI exI [of _ s'] exI [of _ img]) simp_all
qed

text \<open>
  C9. Commit without an asset. For a scratch PDF that is missing, cannot be read or gives
  no Poppler document the loader returns NULL and \<^verbatim>\<open>insertTexImage\<close>
  goes on with it (\<open>failed_load_commits_null\<close> above). For a PDF without a
  page \<^verbatim>\<open>convertDocumentToImage\<close> returns NULL as well, but
  \<^verbatim>\<open>loadRendered\<close> then calls \<^verbatim>\<open>img->setBinaryData\<close>
  through that null pointer instead of returning it: the loader does not return, and a
  session that commits on such a PDF ends there.
\<close>

theorem zero_page_load_dereferences_null:
  "loadRendered (new_LatexController\<lparr>pdfFile := Some (Readable ''%PDF'' (PopplerDocument []))\<rparr>)
     = Inl NullPointerDereference
   \<and> convertDocumentToImage [] new_LatexController = None
   \<and> run zero_page_session new_LatexController = Inl NullPointerDereference"
  by (simp add: session_defs eval_defs)

text \<open>
  C10. Initial input. The claim fails for a session without a current page (page number
  -1) and for one whose page has no view: \<^verbatim>\<open>findSelectedTexElement\<close>
  returns before it reads the selection, and the initial input stays empty.
\<close>

theorem initial_input_counterexample:
  "initalTex (findSelectedTexElement no_page new_LatexController) = []
   \<and> currentTex (findSelectedTexElement no_page new_LatexController) = []
   \<and> initalTex (findSelectedTexElement (page_with_text\<lparr>viewFor := None\<rparr>) new_LatexController) = []"
  by (simp add: findSelectedTexElement_def no_page_def page_with_text_def new_LatexController_def Let_def)

text \<open>
  C10, amended. For a new controller (empty \<open>initalTex\<close>) in a session that has
  a current page and a view for it: after \<^verbatim>\<open>findSelectedTexElement\<close>
  the initial input is not empty and is the current input; it is \<open>x^2\<close> when
  neither a formula nor a text is selected, or when the selected formula has the empty
  text; it is the text of the selected formula otherwise; and for a selected text (and no
  selected formula) it is that text between \<^verbatim>\<open>\text{\<close> and
  \<^verbatim>\<open>}\<close>.
\<close>

theorem initial_input:
  assumes "currentPageNo c \<noteq> - 1" "viewFor c \<noteq> None" "initalTex s = []"
  shows "initalTex (findSelectedTexElement c s) \<noteq> []
     \<and> currentTex (findSelectedTexElement c s) = initalTex (findSelectedTexElement c s)
     \<and> (selectedTex c = None \<and> selectedTxt c = None \<longrightarrow>
          initalTex (findSelectedTexElement c s) = ''x^2'')
     \<and> (\<forall>img. selectedTex c = Some img \<longrightarrow>
          initalTex (findSelectedTexElement c s) = (if img_text img = [] then ''x^2'' else img_text img))
     \<and> (\<forall>t. selectedTex c = None \<and> selectedTxt c = Some t \<longrightarrow>
          initalTex (findSelectedTexElement c s) = CHR 0x5C # ''text{'' @ txt_text t @ ''}'')"
  using assms
  by (auto simp: findSelectedTexElement_def Let_def split: option.splits)

theorem initial_input_witness:
  "currentPageNo page_with_text \<noteq> - 1 \<and> viewFor page_with_text \<noteq> None
   \<and> initalTex new_LatexController = []
   \<and> initalTex (findSelectedTexElement page_with_text new_LatexController)
       = CHR 0x5C # ''text{abc}''
   \<and> initalTex (findSelectedTexElement (page_with_text\<lparr>selectedTxt := None\<rparr>) new_LatexController)
       = ''x^2''"
proof -
  have h: "currentPageNo page_with_text \<noteq> - 1" "viewFor page_with_text \<noteq> None"
    "initalTex new_LatexController = []"
    by (simp_all add: page_with_text_def new_LatexController_def)
  have h2: "currentPageNo (page_with_text\<lparr>selectedTxt := None\<rparr>) \<noteq> - 1"
    "viewFor (page_with_text\<lparr>selectedTxt := None\<rparr>) \<noteq> None"
    by (simp_all add: page_with_text_def)
  have e: "selectedTex page_with_text = None"
    "selectedTxt page_with_text = Some \<lparr>txt_text = ''abc'', txt_width = Finite False 30, txt_height = Finite False 12\<rparr>"
    by (simp_all add: page_with_text_def)
  from initial_input [OF h] initial_input [OF h2 h(3)] e h show ?thesis by simp
qed

text \<open>
  C3. No-op guard. \<^verbatim>\<open>run\<close> skips the commit when
  \<open>currentTex\<close> trims to the empty string or equals \<open>initalTex\<close> (its
  comment: "Nothing to insert / change"; \<open>guard_skips_commit\<close> above). But
  \<^verbatim>\<open>showTexEditDialog\<close> stores the text of the dialog followed by one
  blank, so a text that comes back from the dialog exactly as it went in never equals the
  initial input. In the first session below nothing is selected, the dialog opens on the
  default \<open>x^2\<close> and returns it untouched: \<^verbatim>\<open>run\<close> adds an element
  to the layer, pushes an undo action and sets the selection. In the second a formula is
  selected and its text returns untouched: the formula is removed and a new element with
  one more blank is added, with an undo action. (A scratch PDF of one page lies on disk in
  both.)
\<close>

theorem unchanged_input_commits:
  "map_sum id initalTex
     (run untouched_default_session (new_LatexController\<lparr>pdfFile := Some one_page_pdf\<rparr>))
     = Inr ''x^2''
   \<and> map_sum id currentTex
     (run untouched_default_session (new_LatexController\<lparr>pdfFile := Some one_page_pdf\<rparr>))
     = Inr ''x^2 ''
   \<and> map_sum id calls
     (run untouched_default_session (new_LatexController\<lparr>pdfFile := Some one_page_pdf\<rparr>))
     = Inr [DocLock, DocUnlock, ClearSelectionEndText,
            DocLock,
            AddElement 0 (Some \<lparr>img_x = Finite False 0, img_y = Finite False 0, img_text = ''x^2 '',
               img_width = Finite False 20, img_height = Finite False 10, img_binaryData = ''%PDF''\<rparr>),
            RerenderElement 0 (Some \<lparr>img_x = Finite False 0, img_y = Finite False 0, img_text = ''x^2 '',
               img_width = Finite False 20, img_height = Finite False 10, img_binaryData = ''%PDF''\<rparr>),
            DocUnlock,
            AddUndoAction (Some 0) 0 (Some \<lparr>img_x = Finite False 0, img_y = Finite False 0, img_text = ''x^2 '',
               img_width = Finite False 20, img_height = Finite False 10, img_binaryData = ''%PDF''\<rparr>),
            SetSelection (Some \<lparr>img_x = Finite False 0, img_y = Finite False 0, img_text = ''x^2 '',
               img_width = Finite False 20, img_height = Finite False 10, img_binaryData = ''%PDF''\<rparr>)]
   \<and> map_sum id initalTex
     (run untouched_formula_session (new_LatexController\<lparr>pdfFile := Some one_page_pdf\<rparr>))
     = Inr ''x^2 ''
   \<and> map_sum id calls
     (run untouched_formula_session (new_LatexController\<lparr>pdfFile := Some one_page_pdf\<rparr>))
     = Inr [DocLock, DocUnlock, ClearSelectionEndText,
            DeleteSelection (SelectedTex \<lparr>img_x = Finite False 5, img_y = Finite False 6,
               img_text = ''x^2 '', img_width = Finite False 30, img_height = Finite False 12,
               img_binaryData = ''%PDF''\<rparr>),
            DocLock,
            AddElement 0 (Some \<lparr>img_x = Finite False 5, img_y = Finite False 6, img_text = ''x^2  '',
               img_width = Finite False 24, img_height = Finite False 12, img_binaryData = ''%PDF''\<rparr>),
            RerenderElement 0 (Some \<lparr>img_x = Finite False 5, img_y = Finite False 6, img_text = ''x^2  '',
               img_width = Finite False 24, img_height = Finite False 12, img_binaryData = ''%PDF''\<rparr>),
            DocUnlock,
            AddUndoAction (Some 0) 0 (Some \<lparr>img_x = Finite False 5, img_y = Finite False 6, img_text = ''x^2  '',
               img_width = Finite False 24, img_height = Finite False 12, img_binaryData = ''%PDF''\<rparr>),
            SetSelection (Some \<lparr>img_x = Finite False 5, img_y = Finite False 6, img_text = ''x^2  '',
               img_width = Finite False 24, img_height = Finite False 12, img_binaryData = ''%PDF''\<rparr>)]"
  by (simp add: session_defs eval_defs dbl_eval)

end
